theory Spec2Isabelle
  imports Main "HOL-Library.Word"
begin

unbundle bit_operations_syntax

section \<open>Bytes, errors and the primitive encoder\<close>

type_synonym byte = "8 word"
type_synonym bytes = "byte list"

text \<open>
  The errors of \<^verbatim>\<open>types/transaction.go\<close>. \<open>EOF\<close> is \<^verbatim>\<open>io.EOF\<close>, returned by
  \<^verbatim>\<open>io.ReadFull\<close> on an exhausted reader; \<open>ErrForeign\<close> is an error made by a
  collaborator (the primitive encoder, the JSON library, an extension).
\<close>

datatype error =
    ErrInvalidTransactionVersion
  | ErrTransactionIDWrongLen
  | EOF
  | ErrForeign string

text \<open>Sequencing of fallible steps: the first error is returned.\<close>

definition andThen :: "error + 'a \<Rightarrow> ('a \<Rightarrow> error + 'b) \<Rightarrow> error + 'b" where
  "andThen m f = (case m of Inl err \<Rightarrow> Inl err | Inr x \<Rightarrow> f x)"

text \<open>
  Modelled from the spec: \<^verbatim>\<open>encoding.EncUint64\<close> and \<^verbatim>\<open>encoding.DecUint64\<close> of the
  vendored primitive encoder are not among the sources; an unsigned 64-bit integer is
  eight bytes, little-endian.
\<close>

fun le_bytes :: "nat \<Rightarrow> nat \<Rightarrow> bytes" where
  "le_bytes 0 n = []"
| "le_bytes (Suc k) n = of_nat (n mod 256) # le_bytes k (n div 256)"

fun le_nat :: "bytes \<Rightarrow> nat" where
  "le_nat [] = 0"
| "le_nat (b # bs) = unat b + 256 * le_nat bs"

definition EncUint64 :: "64 word \<Rightarrow> bytes" where
  "EncUint64 i = le_bytes 8 (unat i)"

definition DecUint64 :: "bytes \<Rightarrow> 64 word" where
  "DecUint64 b = of_nat (le_nat (take 8 b))"

text \<open>
  Modelled from the spec: \<^verbatim>\<open>Encoder.EncodeAll\<close> and \<^verbatim>\<open>encoding.MarshalAll\<close> write the
  encodings of their arguments one after the other.
\<close>

definition EncodeAll :: "bytes list \<Rightarrow> bytes" where
  "EncodeAll objs = concat objs"

definition MarshalAll :: "bytes list \<Rightarrow> bytes" where
  "MarshalAll objs = concat objs"

text \<open>
  Modelled from the spec: \<^verbatim>\<open>crypto.HashAll\<close> hashes the concatenation of the encodings
  of its arguments. The hash function itself (\<^verbatim>\<open>crypto.NewHash\<close>, \<^verbatim>\<open>Sum\<close>) is the
  parameter \<open>H\<close>, from the bytes written to the digest.
\<close>

definition HashAll :: "(bytes \<Rightarrow> 'h) \<Rightarrow> bytes list \<Rightarrow> 'h" where
  "HashAll H objs = H (concat objs)"

section \<open>Specifiers\<close>

text \<open>
  \<^verbatim>\<open>Specifier [SpecifierLen]byte\<close>: a list of \<open>SpecifierLen\<close> bytes. An array literal
  with fewer elements is filled with zero bytes.
\<close>

type_synonym Specifier = bytes



definition char_of_byte :: "byte \<Rightarrow> char" where
  "char_of_byte b = char_of (unat b)"




text \<open>
  The loop of \<^verbatim>\<open>Specifier.String\<close>, \<^verbatim>\<open>for i = range s { if s[i] == 0 { break } }\<close>:
  \<open>String_loop bs k i\<close> runs the iterations left, over the elements \<open>bs\<close> from index
  \<open>k\<close> on, \<open>i\<close> being the value the variable has; each iteration first assigns the
  index to the variable. The result is the variable after the loop.
\<close>

fun String_loop :: "bytes \<Rightarrow> nat \<Rightarrow> nat \<Rightarrow> nat" where
  "String_loop [] k i = i"
| "String_loop (b # bs) k i = (if b = 0 then k else String_loop bs (Suc k) k)"

definition Specifier_String :: "Specifier \<Rightarrow> string" where
  "Specifier_String s = map char_of_byte (take (String_loop s 0 0) s)"

section \<open>JSON values\<close>

text \<open>
  A JSON text is modelled by the value it denotes. A \<^verbatim>\<open>json.RawMessage\<close> is a byte
  slice that may or may not hold a JSON text.
\<close>

datatype json =
    JNull
  | JNumber nat
  | JString string
  | JArray "json list"
  | JObject "(string \<times> json) list"

datatype RawMessage = WellFormed json | Malformed

text \<open>
  \<^verbatim>\<open>json.Marshal\<close> on a string: a string of ASCII characters denotes itself. In any other
  string the JSON library replaces what is not valid UTF-8 by the replacement
  character; that function of the library, not among the sources, is the parameter
  \<open>toValidUTF8\<close>.
\<close>

definition json_Marshal_string :: "(string \<Rightarrow> string) \<Rightarrow> string \<Rightarrow> error + json" where
  "json_Marshal_string toValidUTF8 s =
     Inr (JString (if list_all (\<lambda>c. (of_char c :: nat) < 128) s then s else toValidUTF8 s))"

definition Specifier_MarshalJSON :: "(string \<Rightarrow> string) \<Rightarrow> Specifier \<Rightarrow> error + json" where
  "Specifier_MarshalJSON toValidUTF8 s = json_Marshal_string toValidUTF8 (Specifier_String s)"

section \<open>Transactions\<close>

type_synonym TransactionVersion = byte
type_synonym Currency = nat

definition TransactionVersionZero :: TransactionVersion where
  "TransactionVersionZero = 0"

text \<open>
  The hash type \<open>'h\<close> (\<^verbatim>\<open>crypto.Hash\<close>), the input lock \<open>'ul\<close> (\<^verbatim>\<open>InputLockProxy\<close>) and the
  unlock hash \<open>'uh\<close> (\<^verbatim>\<open>UnlockHash\<close>) are declared outside this file.
\<close>

record ('h, 'ul) CoinInput =
  ParentID :: 'h
  Unlocker :: 'ul

record 'uh CoinOutput =
  Value :: Currency
  UnlockHash :: 'uh

record ('h, 'ul) BlockStakeInput =
  ParentID :: 'h
  Unlocker :: 'ul

record 'uh BlockStakeOutput =
  Value :: Currency
  UnlockHash :: 'uh

text \<open>
  \<open>Extension\<close> is an \<^verbatim>\<open>interface{}\<close>: \<open>None\<close> is \<^verbatim>\<open>nil\<close>, \<open>Some x\<close> an object \<open>x\<close>.
  Which interfaces the object implements is looked up in a method table, see
  \<open>typeAssert\<close>.
\<close>

record ('h, 'ul, 'uh, 'x) Transaction =
  Version :: TransactionVersion
  CoinInputs :: "('h, 'ul) CoinInput list"
  CoinOutputs :: "'uh CoinOutput list"
  BlockStakeInputs :: "('h, 'ul) BlockStakeInput list"
  BlockStakeOutputs :: "'uh BlockStakeOutput list"
  MinerFees :: "Currency list"
  ArbitraryData :: bytes
  Extension :: "'x option"

record ('h, 'ul, 'uh, 'x) TransactionDataEncoder =
  EncodeTransactionData :: "('h, 'ul, 'uh, 'x) Transaction \<Rightarrow> error + bytes"
  JSONEncodeTransactionData :: "('h, 'ul, 'uh, 'x) Transaction \<Rightarrow> error + RawMessage"

record ('h, 'ul, 'uh, 'x) TransactionDecoder =
  DecodeTransactionData ::
    "TransactionVersion \<Rightarrow> bytes \<Rightarrow> error + ('h, 'ul, 'uh, 'x) Transaction"
  JSONDecodeTransactionData ::
    "TransactionVersion \<Rightarrow> RawMessage \<Rightarrow> error + ('h, 'ul, 'uh, 'x) Transaction"

record TransactionValidationContext =
  CurrentBlockHeight :: "64 word"
  BlockSizeLimit :: "64 word"

text \<open>
  A validator returns an error or \<^verbatim>\<open>nil\<close>. It may have effects of its own (a test double
  records its invocation), so it runs on a state \<open>'s\<close> and returns the new one.
\<close>

type_synonym ('h, 'ul, 'uh, 'x, 's) TransactionValidator =
  "TransactionValidationContext \<Rightarrow> ('h, 'ul, 'uh, 'x) Transaction \<Rightarrow> 's \<Rightarrow> error option \<times> 's"

text \<open>
  The type assertion \<^verbatim>\<open>t.Extension.(I)\<close>: \<open>table x\<close> is the implementation of the
  interface by the object \<open>x\<close>, if it has one. A \<^verbatim>\<open>nil\<close> extension implements nothing.
\<close>

definition typeAssert :: "('x \<Rightarrow> 'i option) \<Rightarrow> 'x option \<Rightarrow> 'i option" where
  "typeAssert table ext = (case ext of None \<Rightarrow> None | Some x \<Rightarrow> table x)"

text \<open>
  The primitive encoder on the types of the six core fields and on a byte slice
  (\<^verbatim>\<open>Encoder.Encode\<close>, \<^verbatim>\<open>Decoder.Decode\<close>), which is not among the sources. A decoder
  is handed a pointer to a variable and reads from the front of the reader: it takes
  the value the variable holds and the reader, and returns the value the variable holds
  afterwards with the bytes left in the reader.
\<close>

record ('h, 'ul, 'uh) Encoding =
  encode_CoinInputs :: "('h, 'ul) CoinInput list \<Rightarrow> bytes"
  decode_CoinInputs ::
    "('h, 'ul) CoinInput list \<Rightarrow> bytes \<Rightarrow> error + (('h, 'ul) CoinInput list \<times> bytes)"
  encode_CoinOutputs :: "'uh CoinOutput list \<Rightarrow> bytes"
  decode_CoinOutputs ::
    "'uh CoinOutput list \<Rightarrow> bytes \<Rightarrow> error + ('uh CoinOutput list \<times> bytes)"
  encode_BlockStakeInputs :: "('h, 'ul) BlockStakeInput list \<Rightarrow> bytes"
  decode_BlockStakeInputs ::
    "('h, 'ul) BlockStakeInput list \<Rightarrow> bytes \<Rightarrow>
     error + (('h, 'ul) BlockStakeInput list \<times> bytes)"
  encode_BlockStakeOutputs :: "'uh BlockStakeOutput list \<Rightarrow> bytes"
  decode_BlockStakeOutputs ::
    "'uh BlockStakeOutput list \<Rightarrow> bytes \<Rightarrow> error + ('uh BlockStakeOutput list \<times> bytes)"
  encode_MinerFees :: "Currency list \<Rightarrow> bytes"
  decode_MinerFees :: "Currency list \<Rightarrow> bytes \<Rightarrow> error + (Currency list \<times> bytes)"
  encode_bytes :: "bytes \<Rightarrow> bytes"
  decode_bytes :: "bytes \<Rightarrow> bytes \<Rightarrow> error + (bytes \<times> bytes)"

subsection \<open>Binary encoding\<close>

definition TransactionVersion_MarshalSia :: "TransactionVersion \<Rightarrow> bytes" where
  "TransactionVersion_MarshalSia v = [v]"

definition TransactionVersion_UnmarshalSia :: "bytes \<Rightarrow> error + (TransactionVersion \<times> bytes)" where
  "TransactionVersion_UnmarshalSia r = (case r of [] \<Rightarrow> Inl EOF | b # r' \<Rightarrow> Inr (b, r'))"

text \<open>The six core fields as \<^verbatim>\<open>EncodeAll\<close>, \<^verbatim>\<open>MarshalAll\<close> and \<^verbatim>\<open>HashAll\<close> are given them.\<close>

definition coreFields :: "('h, 'ul, 'uh) Encoding \<Rightarrow> ('h, 'ul, 'uh, 'x) Transaction \<Rightarrow> bytes list" where
  "coreFields E t =
     [encode_CoinInputs E (CoinInputs t),
      encode_CoinOutputs E (CoinOutputs t),
      encode_BlockStakeInputs E (BlockStakeInputs t),
      encode_BlockStakeOutputs E (BlockStakeOutputs t),
      encode_MinerFees E (MinerFees t),
      encode_bytes E (ArbitraryData t)]"

text \<open>
  \<^verbatim>\<open>MarshalSia\<close> returns the bytes it has written to the writer, or the error of the
  extension's encoder, in which case nothing has been written.
\<close>

definition MarshalSia ::
  "('h, 'ul, 'uh) Encoding \<Rightarrow> ('x \<Rightarrow> ('h, 'ul, 'uh, 'x) TransactionDataEncoder option) \<Rightarrow>
   ('h, 'ul, 'uh, 'x) Transaction \<Rightarrow> error + bytes" where
  "MarshalSia E asEncoder t =
     (case typeAssert asEncoder (Extension t) of
        Some encoder \<Rightarrow>
          (case EncodeTransactionData encoder t of
             Inl err \<Rightarrow> Inl err
           | Inr rawData \<Rightarrow>
               Inr (EncodeAll [TransactionVersion_MarshalSia (Version t), encode_bytes E rawData]))
      | None \<Rightarrow>
          if Version t = TransactionVersionZero then
            Inr (EncodeAll (TransactionVersion_MarshalSia (Version t) # coreFields E t))
          else
            let rawData = MarshalAll (coreFields E t) in
            Inr (EncodeAll [TransactionVersion_MarshalSia (Version t), encode_bytes E rawData]))"

text \<open>What a call of \<^verbatim>\<open>MarshalSia\<close> has written to its writer.\<close>

definition written :: "error + bytes \<Rightarrow> bytes" where
  "written r = (case r of Inl err \<Rightarrow> [] | Inr b \<Rightarrow> b)"

text \<open>
  Modelled from the spec: \<^verbatim>\<open>unknownTransactionDecoder\<close> is declared outside this file; it
  is the sentinel decoder whose methods fail with the invalid-version error.
\<close>

definition unknownTransactionDecoder :: "('h, 'ul, 'uh, 'x) TransactionDecoder" where
  "unknownTransactionDecoder =
     \<lparr>DecodeTransactionData = (\<lambda>v rawData. Inl ErrInvalidTransactionVersion),
      JSONDecodeTransactionData = (\<lambda>v data. Inl ErrInvalidTransactionVersion)\<rparr>"

text \<open>
  \<^verbatim>\<open>UnmarshalSia\<close> on the receiver \<open>t\<close> and the reader \<open>r\<close>, with the table
  \<^verbatim>\<open>_RegisteredTransactionDecoders\<close> as \<open>registered\<close>. It returns the receiver after the
  call with the bytes left in the reader, or the error; an error is returned as the
  step that failed made it. For version 0 the decoder is handed pointers to the six
  fields of the receiver, so each field decoder takes the value the receiver holds.
  For another version the payload is decoded into a new variable
  (\<^verbatim>\<open>var rawData []byte\<close>) and the receiver is replaced as a whole.
\<close>

definition UnmarshalSia ::
  "('h, 'ul, 'uh) Encoding \<Rightarrow> (TransactionVersion \<rightharpoonup> ('h, 'ul, 'uh, 'x) TransactionDecoder) \<Rightarrow>
   ('h, 'ul, 'uh, 'x) Transaction \<Rightarrow> bytes \<Rightarrow> error + (('h, 'ul, 'uh, 'x) Transaction \<times> bytes)" where
  "UnmarshalSia E registered t r =
     andThen (TransactionVersion_UnmarshalSia r) (\<lambda>(v, r).
       if v = TransactionVersionZero then
         andThen (decode_CoinInputs E (CoinInputs t) r) (\<lambda>(ci, r).
         andThen (decode_CoinOutputs E (CoinOutputs t) r) (\<lambda>(co, r).
         andThen (decode_BlockStakeInputs E (BlockStakeInputs t) r) (\<lambda>(bsi, r).
         andThen (decode_BlockStakeOutputs E (BlockStakeOutputs t) r) (\<lambda>(bso, r).
         andThen (decode_MinerFees E (MinerFees t) r) (\<lambda>(mf, r).
         andThen (decode_bytes E (ArbitraryData t) r) (\<lambda>(ad, r).
           Inr (t\<lparr>Version := v, CoinInputs := ci, CoinOutputs := co,
                   BlockStakeInputs := bsi, BlockStakeOutputs := bso,
                   MinerFees := mf, ArbitraryData := ad\<rparr>, r)))))))
       else
         andThen (decode_bytes E [] r) (\<lambda>(rawData, r).
           let dataDecoder =
                 (case registered v of
                    Some d \<Rightarrow> d
                  | None \<Rightarrow> unknownTransactionDecoder)
           in andThen (DecodeTransactionData dataDecoder v rawData) (\<lambda>t'. Inr (t', r))))"

subsection \<open>Identifiers\<close>

text \<open>
  In the arguments of \<^verbatim>\<open>HashAll\<close> a specifier, an array of bytes, is encoded as its
  bytes, an output index as \<^verbatim>\<open>EncUint64\<close>, and a transaction by its \<^verbatim>\<open>MarshalSia\<close>, as
  what that call writes to the digest.
\<close>

definition ID ::
  "(bytes \<Rightarrow> 'h) \<Rightarrow> ('h, 'ul, 'uh) Encoding \<Rightarrow>
   ('x \<Rightarrow> ('h, 'ul, 'uh, 'x) TransactionDataEncoder option) \<Rightarrow>
   ('h, 'ul, 'uh, 'x) Transaction \<Rightarrow> 'h" where
  "ID H E asEncoder t =
     (if Version t = TransactionVersionZero then HashAll H (coreFields E t)
      else H (written (MarshalSia E asEncoder t)))"



subsection \<open>JSON encoding\<close>

text \<open>
  \<^verbatim>\<open>json.Marshal\<close> on the types of the six core fields, which is not among the sources,
  and \<^verbatim>\<open>json.Unmarshal\<close> into the two helper structs.
\<close>

record ('h, 'ul, 'uh) JSONEncoding =
  json_CoinInputs :: "('h, 'ul) CoinInput list \<Rightarrow> error + json"
  json_CoinOutputs :: "'uh CoinOutput list \<Rightarrow> error + json"
  json_BlockStakeInputs :: "('h, 'ul) BlockStakeInput list \<Rightarrow> error + json"
  json_BlockStakeOutputs :: "'uh BlockStakeOutput list \<Rightarrow> error + json"
  json_MinerFees :: "Currency list \<Rightarrow> error + json"
  json_bytes :: "bytes \<Rightarrow> error + json"

record jsonTransaction =
  jVersion :: TransactionVersion
  jData :: RawMessage

record ('h, 'ul, 'uh) jsonLegacyTransactionVersion =
  lCoinInputs :: "('h, 'ul) CoinInput list"
  lCoinOutputs :: "'uh CoinOutput list"
  lBlockstakeInputs :: "('h, 'ul) BlockStakeInput list"
  lBlockStakeOutputs :: "'uh BlockStakeOutput list"
  lMinerFees :: "Currency list"
  lArbitraryData :: bytes

text \<open>
  A struct field is marshalled under its key; with \<^verbatim>\<open>omitempty\<close> an empty slice is left
  out and its marshaller is not called.
\<close>

definition field :: "string \<Rightarrow> error + json \<Rightarrow> error + (string \<times> json) list" where
  "field key m = andThen m (\<lambda>j. Inr [(key, j)])"

definition omitempty :: "string \<Rightarrow> 'a list \<Rightarrow> ('a list \<Rightarrow> error + json) \<Rightarrow> error + (string \<times> json) list" where
  "omitempty key xs m = (if xs = [] then Inr [] else field key (m xs))"

definition json_Marshal_jsonLegacyTransactionVersion ::
  "('h, 'ul, 'uh) JSONEncoding \<Rightarrow> ('h, 'ul, 'uh) jsonLegacyTransactionVersion \<Rightarrow> error + json" where
  "json_Marshal_jsonLegacyTransactionVersion J d =
     andThen (field ''coininputs'' (json_CoinInputs J (lCoinInputs d))) (\<lambda>f1.
     andThen (omitempty ''coinoutputs'' (lCoinOutputs d) (json_CoinOutputs J)) (\<lambda>f2.
     andThen (omitempty ''blockstakeinputs'' (lBlockstakeInputs d) (json_BlockStakeInputs J)) (\<lambda>f3.
     andThen (omitempty ''blockstakeoutputs'' (lBlockStakeOutputs d) (json_BlockStakeOutputs J)) (\<lambda>f4.
     andThen (field ''minerfees'' (json_MinerFees J (lMinerFees d))) (\<lambda>f5.
     andThen (omitempty ''arbitrarydata'' (lArbitraryData d) (json_bytes J)) (\<lambda>f6.
       Inr (JObject (f1 @ f2 @ f3 @ f4 @ f5 @ f6))))))))"

text \<open>
  Marshalling the envelope fails when the raw message in it is not a JSON text.
\<close>

definition json_Marshal_jsonTransaction :: "jsonTransaction \<Rightarrow> error + json" where
  "json_Marshal_jsonTransaction txn =
     (case jData txn of
        WellFormed d \<Rightarrow> Inr (JObject [(''version'', JNumber (unat (jVersion txn))), (''data'', d)])
      | Malformed \<Rightarrow> Inl (ErrForeign ''json: error calling MarshalJSON for type json.RawMessage''))"

definition MarshalJSON ::
  "('h, 'ul, 'uh) JSONEncoding \<Rightarrow> ('x \<Rightarrow> ('h, 'ul, 'uh, 'x) TransactionDataEncoder option) \<Rightarrow>
   ('h, 'ul, 'uh, 'x) Transaction \<Rightarrow> error + json" where
  "MarshalJSON J asEncoder t =
     andThen
       (case typeAssert asEncoder (Extension t) of
          Some encoder \<Rightarrow> JSONEncodeTransactionData encoder t
        | None \<Rightarrow>
            andThen
              (json_Marshal_jsonLegacyTransactionVersion J
                 \<lparr>lCoinInputs = CoinInputs t,
                  lCoinOutputs = CoinOutputs t,
                  lBlockstakeInputs = BlockStakeInputs t,
                  lBlockStakeOutputs = BlockStakeOutputs t,
                  lMinerFees = MinerFees t,
                  lArbitraryData = ArbitraryData t\<rparr>)
              (\<lambda>j. Inr (WellFormed j)))
       (\<lambda>data. json_Marshal_jsonTransaction \<lparr>jVersion = Version t, jData = data\<rparr>)"

text \<open>
  \<^verbatim>\<open>UnmarshalJSON\<close> on the receiver \<open>t\<close> and the input \<open>b\<close>; \<open>unmarshalEnvelope\<close> and
  \<open>unmarshalLegacy\<close> are \<^verbatim>\<open>json.Unmarshal\<close> into a \<^verbatim>\<open>jsonTransaction\<close> and into a
  \<^verbatim>\<open>jsonLegacyTransactionVersion\<close>.
\<close>

definition UnmarshalJSON ::
  "(RawMessage \<Rightarrow> error + jsonTransaction) \<Rightarrow>
   (RawMessage \<Rightarrow> error + ('h, 'ul, 'uh) jsonLegacyTransactionVersion) \<Rightarrow>
   (TransactionVersion \<rightharpoonup> ('h, 'ul, 'uh, 'x) TransactionDecoder) \<Rightarrow>
   ('h, 'ul, 'uh, 'x) Transaction \<Rightarrow> RawMessage \<Rightarrow> error + ('h, 'ul, 'uh, 'x) Transaction" where
  "UnmarshalJSON unmarshalEnvelope unmarshalLegacy registered t b =
     andThen (unmarshalEnvelope b) (\<lambda>txn.
       if jVersion txn = TransactionVersionZero then
         andThen (unmarshalLegacy (jData txn)) (\<lambda>data.
           Inr (t\<lparr>Version := jVersion txn,
                   CoinInputs := lCoinInputs data,
                   CoinOutputs := lCoinOutputs data,
                   BlockStakeInputs := lBlockstakeInputs data,
                   BlockStakeOutputs := lBlockStakeOutputs data,
                   MinerFees := lMinerFees data,
                   ArbitraryData := lArbitraryData data\<rparr>))
       else
         let decoder =
               (case registered (jVersion txn) of
                  Some d \<Rightarrow> d
                | None \<Rightarrow> unknownTransactionDecoder)
         in JSONDecodeTransactionData decoder (jVersion txn) (jData txn))"

subsection \<open>Validation\<close>

text \<open>
  \<^verbatim>\<open>defaultTransactionValidation\<close> is declared outside this file: it is the parameter
  \<open>defaultValidation\<close>.
\<close>

definition ValidateTransaction ::
  "('x \<Rightarrow> ('h, 'ul, 'uh, 'x, 's) TransactionValidator option) \<Rightarrow>
   ('h, 'ul, 'uh, 'x, 's) TransactionValidator \<Rightarrow>
   ('h, 'ul, 'uh, 'x) Transaction \<Rightarrow> TransactionValidationContext \<Rightarrow> 's \<Rightarrow> error option \<times> 's" where
  "ValidateTransaction asValidator defaultValidation t ctx =
     (case typeAssert asValidator (Extension t) of
        Some validator \<Rightarrow> validator ctx t
      | None \<Rightarrow> defaultValidation ctx t)"

definition IsStandardTransaction ::
  "(TransactionVersion \<rightharpoonup> ('h, 'ul, 'uh, 'x) TransactionDecoder) \<Rightarrow>
   ('h, 'ul, 'uh, 'x) Transaction \<Rightarrow> error option" where
  "IsStandardTransaction registered t =
     (if Version t = TransactionVersionZero then None
      else if registered (Version t) = None then Some ErrInvalidTransactionVersion
      else None)"

section \<open>Transaction short identifiers\<close>

text \<open>
  \<^verbatim>\<open>type TransactionShortID uint64\<close>; a block height is a \<^verbatim>\<open>uint64\<close>, a transaction
  sequence index a \<^verbatim>\<open>uint16\<close>. A Go \<^verbatim>\<open>panic\<close> is the left summand of the result.
\<close>

type_synonym BlockHeight = "64 word"
type_synonym TransactionShortID = "64 word"

datatype panic = Panic string

definition blockHeightOOBMask :: "64 word" where
  "blockHeightOOBMask = 0xFFFC000000000000"

definition txShortIDBlockHeightShift :: nat where
  "txShortIDBlockHeightShift = 14"

definition txSeqIndexOOBMask :: "16 word" where
  "txSeqIndexOOBMask = 0xC000"

definition txSeqIndexMaxMask :: "16 word" where
  "txSeqIndexMaxMask = 0x3FFF"

definition NewTransactionShortID :: "BlockHeight \<Rightarrow> 16 word \<Rightarrow> panic + TransactionShortID" where
  "NewTransactionShortID height txSequenceID =
     (if (height AND blockHeightOOBMask) > 0 then
        Inl (Panic ''block height out of bounds'')
      else if (txSequenceID AND txSeqIndexOOBMask) > 0 then
        Inl (Panic ''transaction sequence ID out of bounds'')
      else
        Inr (push_bit txShortIDBlockHeightShift height
             OR ucast (txSequenceID AND txSeqIndexMaxMask)))"

definition BlockHeight :: "TransactionShortID \<Rightarrow> BlockHeight" where
  "BlockHeight txsid = drop_bit txShortIDBlockHeightShift txsid"

definition TransactionSequenceIndex :: "TransactionShortID \<Rightarrow> 16 word" where
  "TransactionSequenceIndex txsid = ucast (txsid AND ucast txSeqIndexMaxMask)"

section \<open>An instance of the primitive encoder\<close>

text \<open>
  Modelled from the spec: the primitive encoder is not among the sources. The theorems
  below hold for every \<open>Encoding\<close>; this instance evaluates them on concrete inputs. A
  slice is its length as an \<^verbatim>\<open>EncUint64\<close> prefix and then its elements, a struct is its
  fields one after the other. Decoding a slice of length zero leaves the variable as it
  is; otherwise the variable is set to a new slice, whose elements are decoded into
  zero values. In the instance a hash, an input lock and an unlock hash are byte slices
  and a currency value is an unsigned 64-bit integer.
\<close>

definition encodeSlice :: "('a \<Rightarrow> bytes) \<Rightarrow> 'a list \<Rightarrow> bytes" where
  "encodeSlice enc xs = EncUint64 (of_nat (length xs)) @ concat (map enc xs)"

fun decodeElements :: "(bytes \<Rightarrow> error + ('a \<times> bytes)) \<Rightarrow> nat \<Rightarrow> bytes \<Rightarrow> error + ('a list \<times> bytes)" where
  "decodeElements dec 0 r = Inr ([], r)"
| "decodeElements dec (Suc n) r =
     andThen (dec r) (\<lambda>(x, r).
     andThen (decodeElements dec n r) (\<lambda>(xs, r). Inr (x # xs, r)))"

definition decodeSlice ::
  "(bytes \<Rightarrow> error + ('a \<times> bytes)) \<Rightarrow> 'a list \<Rightarrow> bytes \<Rightarrow> error + ('a list \<times> bytes)" where
  "decodeSlice dec cur r =
     (if length r < 8 then Inl (ErrForeign ''could not decode: EOF'')
      else
        let n = unat (DecUint64 (take 8 r)) in
        if n = 0 then Inr (cur, drop 8 r)
        else decodeElements dec n (drop 8 r))"

definition encodeByte :: "byte \<Rightarrow> bytes" where
  "encodeByte b = [b]"

definition decodeByte :: "bytes \<Rightarrow> error + (byte \<times> bytes)" where
  "decodeByte r = (case r of [] \<Rightarrow> Inl (ErrForeign ''could not decode: EOF'') | b # r' \<Rightarrow> Inr (b, r'))"

definition encodeByteSlice :: "bytes \<Rightarrow> bytes" where
  "encodeByteSlice = encodeSlice encodeByte"

definition decodeByteSlice :: "bytes \<Rightarrow> bytes \<Rightarrow> error + (bytes \<times> bytes)" where
  "decodeByteSlice = decodeSlice decodeByte"

definition encodeCurrency :: "Currency \<Rightarrow> bytes" where
  "encodeCurrency c = EncUint64 (of_nat c)"

definition decodeCurrency :: "bytes \<Rightarrow> error + (Currency \<times> bytes)" where
  "decodeCurrency r =
     (if length r < 8 then Inl (ErrForeign ''could not decode: EOF'')
      else Inr (unat (DecUint64 (take 8 r)), drop 8 r))"

definition encodeCoinInput :: "(bytes, bytes) CoinInput \<Rightarrow> bytes" where
  "encodeCoinInput ci =
     encodeByteSlice (CoinInput.ParentID ci) @ encodeByteSlice (CoinInput.Unlocker ci)"

definition decodeCoinInput :: "bytes \<Rightarrow> error + ((bytes, bytes) CoinInput \<times> bytes)" where
  "decodeCoinInput r =
     andThen (decodeByteSlice [] r) (\<lambda>(p, r).
     andThen (decodeByteSlice [] r) (\<lambda>(u, r).
       Inr (\<lparr>CoinInput.ParentID = p, CoinInput.Unlocker = u\<rparr>, r)))"

definition encodeCoinOutput :: "bytes CoinOutput \<Rightarrow> bytes" where
  "encodeCoinOutput co =
     encodeCurrency (CoinOutput.Value co) @ encodeByteSlice (CoinOutput.UnlockHash co)"

definition decodeCoinOutput :: "bytes \<Rightarrow> error + (bytes CoinOutput \<times> bytes)" where
  "decodeCoinOutput r =
     andThen (decodeCurrency r) (\<lambda>(v, r).
     andThen (decodeByteSlice [] r) (\<lambda>(uh, r).
       Inr (\<lparr>CoinOutput.Value = v, CoinOutput.UnlockHash = uh\<rparr>, r)))"

definition encodeBlockStakeInput :: "(bytes, bytes) BlockStakeInput \<Rightarrow> bytes" where
  "encodeBlockStakeInput bsi =
     encodeByteSlice (BlockStakeInput.ParentID bsi) @ encodeByteSlice (BlockStakeInput.Unlocker bsi)"

definition decodeBlockStakeInput :: "bytes \<Rightarrow> error + ((bytes, bytes) BlockStakeInput \<times> bytes)" where
  "decodeBlockStakeInput r =
     andThen (decodeByteSlice [] r) (\<lambda>(p, r).
     andThen (decodeByteSlice [] r) (\<lambda>(u, r).
       Inr (\<lparr>BlockStakeInput.ParentID = p, BlockStakeInput.Unlocker = u\<rparr>, r)))"

definition encodeBlockStakeOutput :: "bytes BlockStakeOutput \<Rightarrow> bytes" where
  "encodeBlockStakeOutput bso =
     encodeCurrency (BlockStakeOutput.Value bso) @ encodeByteSlice (BlockStakeOutput.UnlockHash bso)"

definition decodeBlockStakeOutput :: "bytes \<Rightarrow> error + (bytes BlockStakeOutput \<times> bytes)" where
  "decodeBlockStakeOutput r =
     andThen (decodeCurrency r) (\<lambda>(v, r).
     andThen (decodeByteSlice [] r) (\<lambda>(uh, r).
       Inr (\<lparr>BlockStakeOutput.Value = v, BlockStakeOutput.UnlockHash = uh\<rparr>, r)))"

definition sliceEncoding :: "(bytes, bytes, bytes) Encoding" where
  "sliceEncoding =
     \<lparr>encode_CoinInputs = encodeSlice encodeCoinInput,
      decode_CoinInputs = decodeSlice decodeCoinInput,
      encode_CoinOutputs = encodeSlice encodeCoinOutput,
      decode_CoinOutputs = decodeSlice decodeCoinOutput,
      encode_BlockStakeInputs = encodeSlice encodeBlockStakeInput,
      decode_BlockStakeInputs = decodeSlice decodeBlockStakeInput,
      encode_BlockStakeOutputs = encodeSlice encodeBlockStakeOutput,
      decode_BlockStakeOutputs = decodeSlice decodeBlockStakeOutput,
      encode_MinerFees = encodeSlice encodeCurrency,
      decode_MinerFees = decodeSlice decodeCurrency,
      encode_bytes = encodeByteSlice,
      decode_bytes = decodeByteSlice\<rparr>"

text \<open>The zero value of a transaction, as \<^verbatim>\<open>Transaction{}\<close> or \<^verbatim>\<open>var t Transaction\<close>.\<close>

definition zeroTransaction :: "('h, 'ul, 'uh, 'x) Transaction" where
  "zeroTransaction =
     \<lparr>Version = 0, CoinInputs = [], CoinOutputs = [], BlockStakeInputs = [],
      BlockStakeOutputs = [], MinerFees = [], ArbitraryData = [], Extension = None\<rparr>"

text \<open>
  A decoder for a registered version that reads the six core fields from the payload,
  as the encoding without an extension writes them.
\<close>

definition coreFieldsDecoder :: "(bytes, bytes, bytes, 'x) TransactionDecoder" where
  "coreFieldsDecoder =
     \<lparr>DecodeTransactionData = (\<lambda>v rawData.
        andThen (decode_CoinInputs sliceEncoding [] rawData) (\<lambda>(ci, r).
        andThen (decode_CoinOutputs sliceEncoding [] r) (\<lambda>(co, r).
        andThen (decode_BlockStakeInputs sliceEncoding [] r) (\<lambda>(bsi, r).
        andThen (decode_BlockStakeOutputs sliceEncoding [] r) (\<lambda>(bso, r).
        andThen (decode_MinerFees sliceEncoding [] r) (\<lambda>(mf, r).
        andThen (decode_bytes sliceEncoding [] r) (\<lambda>(ad, r).
          Inr \<lparr>Version = v, CoinInputs = ci, CoinOutputs = co, BlockStakeInputs = bsi,
               BlockStakeOutputs = bso, MinerFees = mf, ArbitraryData = ad,
               Extension = None\<rparr>))))))),
      JSONDecodeTransactionData = (\<lambda>v data. Inl (ErrForeign ''no JSON decoder''))\<rparr>"

text \<open>An extension object whose encoder writes the arbitrary data as the payload.\<close>

definition dataOnlyEncoder :: "('h, 'ul, 'uh, 'x) TransactionDataEncoder" where
  "dataOnlyEncoder =
     \<lparr>EncodeTransactionData = (\<lambda>t. Inr (ArbitraryData t)),
      JSONEncodeTransactionData = (\<lambda>t. Inr (WellFormed (JString (map char_of_byte (ArbitraryData t)))))\<rparr>"

text \<open>
  Test doubles for validation: the state counts the calls of the extension's validator
  and the calls of the default validation.
\<close>

definition countingValidator :: "('h, 'ul, 'uh, 'x, nat \<times> nat) TransactionValidator" where
  "countingValidator ctx t s = (None, (fst s + 1, snd s))"

definition countingDefaultValidation :: "('h, 'ul, 'uh, 'x, nat \<times> nat) TransactionValidator" where
  "countingDefaultValidation ctx t s = (Some (ErrForeign ''not standard''), (fst s, snd s + 1))"

text \<open>
  An instance of the JSON marshallers of the fields: a slice is an array, a currency
  value a number, bytes a string.
\<close>

definition sampleJSONEncoding :: "(bytes, bytes, bytes) JSONEncoding" where
  "sampleJSONEncoding =
     \<lparr>json_CoinInputs = (\<lambda>xs. Inr (JArray (map (\<lambda>ci.
         JObject [(''parentid'', JString (map char_of_byte (CoinInput.ParentID ci))),
                  (''unlocker'', JString (map char_of_byte (CoinInput.Unlocker ci)))]) xs))),
      json_CoinOutputs = (\<lambda>xs. Inr (JArray (map (\<lambda>co.
         JObject [(''value'', JNumber (CoinOutput.Value co)),
                  (''unlockhash'', JString (map char_of_byte (CoinOutput.UnlockHash co)))]) xs))),
      json_BlockStakeInputs = (\<lambda>xs. Inr (JArray (map (\<lambda>bsi.
         JObject [(''parentid'', JString (map char_of_byte (BlockStakeInput.ParentID bsi))),
                  (''unlocker'', JString (map char_of_byte (BlockStakeInput.Unlocker bsi)))]) xs))),
      json_BlockStakeOutputs = (\<lambda>xs. Inr (JArray (map (\<lambda>bso.
         JObject [(''value'', JNumber (BlockStakeOutput.Value bso)),
                  (''unlockhash'', JString (map char_of_byte (BlockStakeOutput.UnlockHash bso)))]) xs))),
      json_MinerFees = (\<lambda>xs. Inr (JArray (map JNumber xs))),
      json_bytes = (\<lambda>b. Inr (JString (map char_of_byte b)))\<rparr>"

text \<open>
  The primitive encoder round-trips on the six core fields of a transaction: each
  decoder, handed a variable that holds the zero value and a reader with the encoding
  of the field followed by any bytes, leaves the field in the variable and those bytes
  in the reader.
\<close>

definition fieldsRoundTrip :: "('h, 'ul, 'uh) Encoding \<Rightarrow> ('h, 'ul, 'uh, 'x) Transaction \<Rightarrow> bool" where
  "fieldsRoundTrip E t \<longleftrightarrow>
     (\<forall>r. decode_CoinInputs E [] (encode_CoinInputs E (CoinInputs t) @ r) = Inr (CoinInputs t, r))
     \<and> (\<forall>r. decode_CoinOutputs E [] (encode_CoinOutputs E (CoinOutputs t) @ r)
              = Inr (CoinOutputs t, r))
     \<and> (\<forall>r. decode_BlockStakeInputs E [] (encode_BlockStakeInputs E (BlockStakeInputs t) @ r)
              = Inr (BlockStakeInputs t, r))
     \<and> (\<forall>r. decode_BlockStakeOutputs E [] (encode_BlockStakeOutputs E (BlockStakeOutputs t) @ r)
              = Inr (BlockStakeOutputs t, r))
     \<and> (\<forall>r. decode_MinerFees E [] (encode_MinerFees E (MinerFees t) @ r) = Inr (MinerFees t, r))
     \<and> (\<forall>r. decode_bytes E [] (encode_bytes E (ArbitraryData t) @ r) = Inr (ArbitraryData t, r))"

text \<open>
  A receiver whose six core fields hold their zero values, as those of a new
  \<^verbatim>\<open>Transaction{}\<close> do.
\<close>

definition zeroFields :: "('h, 'ul, 'uh, 'x) Transaction \<Rightarrow> bool" where
  "zeroFields t \<longleftrightarrow>
     CoinInputs t = [] \<and> CoinOutputs t = [] \<and> BlockStakeInputs t = []
     \<and> BlockStakeOutputs t = [] \<and> MinerFees t = [] \<and> ArbitraryData t = []"


section \<open>Short identifiers: bounds, packing, order\<close>

lemma blockHeightOOBMask_eq: "blockHeightOOBMask = NOT (mask 50)"
  by (simp add: blockHeightOOBMask_def mask_eq_exp_minus_1)

lemma txSeqIndexOOBMask_eq: "txSeqIndexOOBMask = NOT (mask 14)"
  by (simp add: txSeqIndexOOBMask_def mask_eq_exp_minus_1)

lemma txSeqIndexMaxMask_eq: "txSeqIndexMaxMask = mask 14"
  by (simp add: txSeqIndexMaxMask_def mask_eq_exp_minus_1)

lemma and_not_mask_eq_0_iff:
  "w AND NOT (mask n) = 0 \<longleftrightarrow> w AND mask n = w" for w :: "'a::len word"
  by (auto simp: bit_eq_iff bit_simps)

lemma height_out_of_bounds_iff:
  "height AND blockHeightOOBMask > 0 \<longleftrightarrow> 2 ^ 50 \<le> height" for height :: "64 word"
proof -
  have "height AND blockHeightOOBMask = 0 \<longleftrightarrow> height < 2 ^ 50"
    unfolding blockHeightOOBMask_eq and_not_mask_eq_0_iff
    by (rule mask_eq_iff_w2p) (simp add: word_size)
  then show ?thesis
    by (simp add: word_gt_0 linorder_not_less [symmetric] del: linorder_not_less)
qed

lemma seq_out_of_bounds_iff:
  "txSequenceID AND txSeqIndexOOBMask > 0 \<longleftrightarrow> 2 ^ 14 \<le> txSequenceID"
  for txSequenceID :: "16 word"
proof -
  have "txSequenceID AND txSeqIndexOOBMask = 0 \<longleftrightarrow> txSequenceID < 2 ^ 14"
    unfolding txSeqIndexOOBMask_eq and_not_mask_eq_0_iff
    by (rule mask_eq_iff_w2p) (simp add: word_size)
  then show ?thesis
    by (simp add: word_gt_0 linorder_not_less [symmetric] del: linorder_not_less)
qed

lemma NewTransactionShortID_in_bounds:
  assumes "height < 2 ^ 50" and "txSequenceID < 2 ^ 14"
  shows "NewTransactionShortID height txSequenceID =
           Inr (push_bit 14 height OR ucast (txSequenceID AND mask 14))"
proof -
  have "\<not> height AND blockHeightOOBMask > 0"
    using assms(1) by (simp only: height_out_of_bounds_iff linorder_not_le)
  moreover have "\<not> txSequenceID AND txSeqIndexOOBMask > 0"
    using assms(2) by (simp only: seq_out_of_bounds_iff linorder_not_le)
  ultimately show ?thesis
    by (simp add: NewTransactionShortID_def txShortIDBlockHeightShift_def txSeqIndexMaxMask_eq)
qed

lemma unpack_height:
  fixes h :: "64 word" and s :: "16 word"
  shows "drop_bit 14 (push_bit 14 (h AND mask 50) OR ucast (s AND mask 14)) = h AND mask 50"
  by (auto simp: bit_eq_iff bit_simps)

lemma unpack_seq:
  fixes h :: "64 word" and s :: "16 word"
  shows "(ucast ((push_bit 14 h OR ucast (s AND mask 14)) AND (ucast (mask 14 :: 16 word) :: 64 word)) :: 16 word)
           = s AND mask 14"
  by (auto simp: bit_eq_iff bit_simps)

lemma pack_disjoint:
  fixes h :: "64 word" and s :: "16 word"
  shows "push_bit 14 h AND (ucast (s AND mask 14) :: 64 word) = 0"
  by (auto simp: bit_eq_iff bit_simps)

lemma unat_push_bit_14:
  fixes h :: "64 word"
  assumes "h < 2 ^ 50"
  shows "unat (push_bit 14 h) = unat h * 2 ^ 14"
proof -
  have "unat h < 2 ^ 50" using assms by (simp add: word_less_nat_alt)
  then have "unat h * unat (2 ^ 14 :: 64 word) < 2 ^ LENGTH(64)" by simp
  then have "unat (h * 2 ^ 14) = unat h * unat (2 ^ 14 :: 64 word)"
    by (simp only: unat_mult_lem)
  then show ?thesis by (simp add: push_bit_eq_mult)
qed

lemma unat_packed:
  fixes h :: "64 word" and s :: "16 word"
  assumes "h < 2 ^ 50" and "s < 2 ^ 14"
  shows "unat (push_bit 14 h OR ucast (s AND mask 14)) = unat h * 2 ^ 14 + unat s"
proof -
  have s: "s AND mask 14 = s" using assms(2) by (rule less_mask_eq)
  have "push_bit 14 h OR (ucast s :: 64 word) = push_bit 14 h + ucast s"
    using pack_disjoint [of h s] by (simp add: s disjunctive_add_eq_or)
  moreover have "unat (ucast s :: 64 word) = unat s"
  proof -
    have "unat s < 2 ^ 64" using unsigned_less [of s, where 'a = nat] by simp
    then show ?thesis by (simp add: unsigned_ucast_eq take_bit_nat_eq_self)
  qed
  moreover have "unat h < 2 ^ 50" and "unat s < 2 ^ 14"
    using assms by (simp_all add: word_less_nat_alt)
  ultimately show ?thesis
    using unat_push_bit_14 [OF assms(1)] by (simp add: s unat_word_ariths)
qed

lemma lex_order_nat:
  fixes a b c d :: nat
  assumes "b < 16384" and "d < 16384"
  shows "a * 16384 + b < c * 16384 + d \<longleftrightarrow> a < c \<or> (a = c \<and> b < d)"
  using assms by arith

text \<open>
  C6: \<^verbatim>\<open>NewTransactionShortID\<close> panics exactly when a bound is violated: when the
  height is at least \<open>2 ^ 50\<close> or the sequence index at least \<open>2 ^ 14\<close>, and for a height
  and a sequence index below these bounds it returns.
\<close>

theorem NewTransactionShortID_panics_iff:
  "(\<exists>p. NewTransactionShortID height txSequenceID = Inl p)
     \<longleftrightarrow> (2 ^ 50 \<le> height \<or> 2 ^ 14 \<le> txSequenceID)"
  by (simp add: NewTransactionShortID_def height_out_of_bounds_iff seq_out_of_bounds_iff)

text \<open>
  C7: for a height below \<open>2 ^ 50\<close> and a sequence index below \<open>2 ^ 14\<close>, the short
  identifier is built, and \<^verbatim>\<open>BlockHeight\<close> and \<^verbatim>\<open>TransactionSequenceIndex\<close> give the
  two components back; so for the height 12345 and the index 42.
\<close>

theorem NewTransactionShortID_roundtrip:
  assumes "height < 2 ^ 50" and "txSequenceID < 2 ^ 14"
  shows "\<exists>txsid. NewTransactionShortID height txSequenceID = Inr txsid
           \<and> BlockHeight txsid = height
           \<and> TransactionSequenceIndex txsid = txSequenceID"
proof -
  have h: "height AND mask 50 = height" using assms(1) by (rule less_mask_eq)
  have s: "txSequenceID AND mask 14 = txSequenceID" using assms(2) by (rule less_mask_eq)
  let ?txsid = "push_bit 14 height OR ucast (txSequenceID AND mask 14) :: 64 word"
  have "BlockHeight ?txsid = height"
    using unpack_height [of height txSequenceID]
    by (simp add: BlockHeight_def txShortIDBlockHeightShift_def h)
  moreover have "TransactionSequenceIndex ?txsid = txSequenceID"
    using unpack_seq [of height txSequenceID]
    by (simp add: TransactionSequenceIndex_def txSeqIndexMaxMask_eq s)
  ultimately show ?thesis
    by (simp add: NewTransactionShortID_in_bounds [OF assms])
qed

theorem NewTransactionShortID_roundtrip_witness:
  "(12345 :: 64 word) < 2 ^ 50 \<and> (42 :: 16 word) < 2 ^ 14 \<and>
   (\<exists>txsid. NewTransactionShortID 12345 42 = Inr txsid
      \<and> BlockHeight txsid = 12345 \<and> TransactionSequenceIndex txsid = 42)"
  using NewTransactionShortID_roundtrip [of 12345 42] by simp

text \<open>
  C8: on components within their bounds, the order of the short identifiers as unsigned
  64-bit integers is the chain order: the first is smaller exactly when its height is
  smaller, or the heights are equal and its sequence index is smaller.
\<close>

theorem NewTransactionShortID_order:
  assumes "h1 < 2 ^ 50" and "s1 < 2 ^ 14" and "h2 < 2 ^ 50" and "s2 < 2 ^ 14"
  shows "\<exists>a b. NewTransactionShortID h1 s1 = Inr a \<and> NewTransactionShortID h2 s2 = Inr b
           \<and> (a < b \<longleftrightarrow> h1 < h2 \<or> (h1 = h2 \<and> s1 < s2))"
proof -
  let ?a = "push_bit 14 h1 OR ucast (s1 AND mask 14) :: 64 word"
  let ?b = "push_bit 14 h2 OR ucast (s2 AND mask 14) :: 64 word"
  have a: "unat ?a = unat h1 * 16384 + unat s1"
    using unat_packed [OF assms(1,2)] by simp
  have b: "unat ?b = unat h2 * 16384 + unat s2"
    using unat_packed [OF assms(3,4)] by simp
  have "unat s1 < 16384" and "unat s2 < 16384"
    using assms(2,4) by (simp_all add: word_less_nat_alt)
  then have "unat ?a < unat ?b \<longleftrightarrow>
               unat h1 < unat h2 \<or> (unat h1 = unat h2 \<and> unat s1 < unat s2)"
    unfolding a b by (rule lex_order_nat)
  then have "?a < ?b \<longleftrightarrow> h1 < h2 \<or> (h1 = h2 \<and> s1 < s2)"
    by (simp add: word_less_nat_alt word_unat_eq_iff)
  then show ?thesis
    by (simp add: NewTransactionShortID_in_bounds [OF assms(1,2)]
        NewTransactionShortID_in_bounds [OF assms(3,4)])
qed

theorem NewTransactionShortID_order_witness:
  "(7 :: 64 word) < 2 ^ 50 \<and> (16383 :: 16 word) < 2 ^ 14 \<and> (8 :: 64 word) < 2 ^ 50 \<and> (0 :: 16 word) < 2 ^ 14 \<and>
   (\<exists>a b. NewTransactionShortID 7 16383 = Inr a \<and> NewTransactionShortID 8 0 = Inr b
      \<and> (a < b \<longleftrightarrow> (7 :: 64 word) < 8 \<or> ((7 :: 64 word) = 8 \<and> (16383 :: 16 word) < 0)))"
  using NewTransactionShortID_order [of 7 16383 8 0] by simp

section \<open>The instance of the primitive encoder round-trips\<close>

lemma length_le_bytes: "length (le_bytes k n) = k"
  by (induction k arbitrary: n) simp_all

lemma le_nat_le_bytes: "le_nat (le_bytes k n) = n mod 256 ^ k"
proof (induction k arbitrary: n)
  case 0
  show ?case by simp
next
  case (Suc k)
  have "unat (of_nat (n mod 256) :: byte) = n mod 256"
    by (simp add: unat_of_nat)
  then show ?case
    by (simp add: Suc mod_mult2_eq)
qed

lemma length_EncUint64: "length (EncUint64 i) = 8"
  by (simp add: EncUint64_def length_le_bytes)

lemma DecUint64_EncUint64: "DecUint64 (EncUint64 i @ r) = i"
proof -
  have "unat i < 256 ^ 8"
    using unsigned_less [of i, where 'a = nat] by simp
  then have "le_nat (le_bytes 8 (unat i)) = unat i"
    by (simp only: le_nat_le_bytes mod_less)
  then show ?thesis
    by (simp add: DecUint64_def EncUint64_def length_le_bytes)
qed


lemma unat_length_word:
  assumes "length xs < 2 ^ 64"
  shows "unat (of_nat (length xs) :: 64 word) = length xs"
  using assms by (simp add: unat_of_nat)

lemma decodeElements_concat:
  assumes "\<And>x r. x \<in> set xs \<Longrightarrow> dec (enc x @ r) = Inr (x, r)"
  shows "decodeElements dec (length xs) (concat (map enc xs) @ r) = Inr (xs, r)"
  using assms by (induction xs) (simp_all add: andThen_def)

lemma decodeSlice_encodeSlice:
  assumes "length xs < 2 ^ 64"
    and "\<And>x r. x \<in> set xs \<Longrightarrow> dec (enc x @ r) = Inr (x, r)"
  shows "decodeSlice dec cur (encodeSlice enc xs @ r) = Inr (if xs = [] then cur else xs, r)"
proof -
  have t8: "take 8 (encodeSlice enc xs @ r) = EncUint64 (of_nat (length xs))"
    by (simp add: encodeSlice_def length_EncUint64)
  have d8: "drop 8 (encodeSlice enc xs @ r) = concat (map enc xs) @ r"
    by (simp add: encodeSlice_def length_EncUint64)
  have l8: "(length (encodeSlice enc xs @ r) < 8) = False"
    by (simp add: encodeSlice_def length_EncUint64)
  have "DecUint64 (EncUint64 (of_nat (length xs))) = of_nat (length xs)"
    using DecUint64_EncUint64 [of "of_nat (length xs)" "[]"] by simp
  then have n: "unat (DecUint64 (take 8 (encodeSlice enc xs @ r))) = length xs"
    by (simp only: t8 unat_length_word [OF assms(1)])
  have e: "decodeElements dec (length xs) (concat (map enc xs) @ r) = Inr (xs, r)"
    by (rule decodeElements_concat) (rule assms(2))
  show ?thesis
    unfolding decodeSlice_def Let_def n d8 l8 e if_False
    by (cases xs) simp_all
qed

lemma decodeSlice_encodeSlice_zero:
  assumes "length xs < 2 ^ 64"
    and "\<And>x r. x \<in> set xs \<Longrightarrow> dec (enc x @ r) = Inr (x, r)"
  shows "decodeSlice dec [] (encodeSlice enc xs @ r) = Inr (xs, r)"
  using decodeSlice_encodeSlice [of xs dec enc "[]" r, OF assms] by simp

lemma decodeByteSlice_encodeByteSlice:
  assumes "length b < 2 ^ 64"
  shows "decodeByteSlice [] (encodeByteSlice b @ r) = Inr (b, r)"
  unfolding decodeByteSlice_def encodeByteSlice_def
  by (rule decodeSlice_encodeSlice_zero [OF assms]) (simp add: encodeByte_def decodeByte_def)

lemma decodeCurrency_encodeCurrency:
  assumes "c < 2 ^ 64"
  shows "decodeCurrency (encodeCurrency c @ r) = Inr (c, r)"
proof -
  have "DecUint64 (take 8 (EncUint64 (of_nat c) @ r)) = of_nat c"
    using DecUint64_EncUint64 [of "of_nat c" "[]"] by (simp add: length_EncUint64)
  then show ?thesis
    using assms by (simp add: decodeCurrency_def encodeCurrency_def length_EncUint64 unat_of_nat)
qed

lemma decodeCoinOutput_encodeCoinOutput:
  assumes "CoinOutput.Value co < 2 ^ 64" and "length (CoinOutput.UnlockHash co) < 2 ^ 64"
  shows "decodeCoinOutput (encodeCoinOutput co @ r) = Inr (co, r)"
  using assms
  by (simp add: decodeCoinOutput_def encodeCoinOutput_def andThen_def
      decodeCurrency_encodeCurrency decodeByteSlice_encodeByteSlice)

lemma decodeCoinInput_encodeCoinInput:
  assumes "length (CoinInput.ParentID ci) < 2 ^ 64" and "length (CoinInput.Unlocker ci) < 2 ^ 64"
  shows "decodeCoinInput (encodeCoinInput ci @ r) = Inr (ci, r)"
  using assms
  by (simp add: decodeCoinInput_def encodeCoinInput_def andThen_def
      decodeByteSlice_encodeByteSlice)

section \<open>Specifiers as strings\<close>

lemma String_loop_zero:
  "0 \<in> set bs \<Longrightarrow> String_loop bs k i = k + length (takeWhile (\<lambda>b. b \<noteq> 0) bs)"
  by (induction bs arbitrary: k i) auto

lemma String_loop_no_zero:
  "0 \<notin> set bs \<Longrightarrow> bs \<noteq> [] \<Longrightarrow> String_loop bs k i = k + length bs - 1"
proof (induction bs arbitrary: k i)
  case Nil
  then show ?case by simp
next
  case (Cons b bs)
  then show ?case by (cases bs) auto
qed

lemma Specifier_String_zero:
  assumes "0 \<in> set s"
  shows "Specifier_String s = map char_of_byte (takeWhile (\<lambda>b. b \<noteq> 0) s)"
proof -
  have "take (length (takeWhile (\<lambda>b. b \<noteq> 0) s)) s = takeWhile (\<lambda>b. b \<noteq> 0) s"
    by (induction s) auto
  then show ?thesis
    by (simp add: Specifier_String_def String_loop_zero [OF assms])
qed

lemma Specifier_String_no_zero:
  assumes "0 \<notin> set s" and "s \<noteq> []"
  shows "Specifier_String s = map char_of_byte (butlast s)"
  by (simp add: Specifier_String_def String_loop_no_zero [OF assms] butlast_conv_take)

text \<open>
  C5: \<^verbatim>\<open>String\<close> is to return the bytes of the specifier before its first zero byte,
  all sixteen when there is none, and \<^verbatim>\<open>MarshalJSON\<close> emits that string. On the
  specifier of sixteen bytes \<open>a\<close> the code returns fifteen of them: after a loop that
  did not break the variable holds the last index, not the length.
\<close>

theorem Specifier_String_sixteen_nonzero:
  "Specifier_String (replicate 16 0x61) = ''aaaaaaaaaaaaaaa''
   \<and> length (Specifier_String (replicate 16 0x61)) = 15
   \<and> Specifier_MarshalJSON toValidUTF8 (replicate 16 0x61) = Inr (JString ''aaaaaaaaaaaaaaa'')"
  by code_simp

section \<open>Identifiers\<close>

lemma MarshalSia_legacy:
  assumes "typeAssert asEncoder (Extension t) = None" and "Version t = TransactionVersionZero"
  shows "MarshalSia E asEncoder t = Inr (Version t # concat (coreFields E t))"
  using assms by (simp add: MarshalSia_def EncodeAll_def TransactionVersion_MarshalSia_def)

lemma MarshalSia_blob:
  assumes "typeAssert asEncoder (Extension t) = None" and "Version t \<noteq> TransactionVersionZero"
  shows "MarshalSia E asEncoder t = Inr (Version t # encode_bytes E (concat (coreFields E t)))"
  using assms
  by (simp add: MarshalSia_def EncodeAll_def MarshalAll_def TransactionVersion_MarshalSia_def)

lemma MarshalSia_extension:
  assumes "typeAssert asEncoder (Extension t) = Some encoder"
  shows "MarshalSia E asEncoder t =
           (case EncodeTransactionData encoder t of
              Inl err \<Rightarrow> Inl err
            | Inr rawData \<Rightarrow> Inr (Version t # encode_bytes E rawData))"
  using assms
  by (simp add: MarshalSia_def EncodeAll_def TransactionVersion_MarshalSia_def split: sum.splits)

lemma MarshalSia_starts_with_version:
  assumes "MarshalSia E asEncoder t = Inr b"
  shows "b \<noteq> [] \<and> hd b = Version t"
proof (cases "typeAssert asEncoder (Extension t)")
  case None
  then show ?thesis
    using assms MarshalSia_legacy [OF None, of E] MarshalSia_blob [OF None, of E]
    by (cases "Version t = TransactionVersionZero") auto
next
  case (Some encoder)
  then show ?thesis
    using assms by (auto simp: MarshalSia_extension split: sum.splits)
qed

text \<open>
  C1: the identifier of a transaction of version 0 is the hash of its six core fields,
  in the order coin inputs, coin outputs, block stake inputs, block stake outputs,
  miner fees, arbitrary data, without the version byte (which the flat encoding of
  such a transaction puts in front of the same bytes). The identifier of a transaction
  of another version is the hash of what \<^verbatim>\<open>MarshalSia\<close> writes, one hash of the whole
  encoding, which starts with the version byte.
\<close>

theorem ID_by_version:
  "(Version t = TransactionVersionZero \<longrightarrow>
      ID H E asEncoder t =
        H (encode_CoinInputs E (CoinInputs t) @ encode_CoinOutputs E (CoinOutputs t) @
           encode_BlockStakeInputs E (BlockStakeInputs t) @
           encode_BlockStakeOutputs E (BlockStakeOutputs t) @
           encode_MinerFees E (MinerFees t) @ encode_bytes E (ArbitraryData t))
      \<and> (typeAssert asEncoder (Extension t) = None \<longrightarrow>
           MarshalSia E asEncoder t =
             Inr (Version t #
               encode_CoinInputs E (CoinInputs t) @ encode_CoinOutputs E (CoinOutputs t) @
               encode_BlockStakeInputs E (BlockStakeInputs t) @
               encode_BlockStakeOutputs E (BlockStakeOutputs t) @
               encode_MinerFees E (MinerFees t) @ encode_bytes E (ArbitraryData t))))
   \<and> (Version t \<noteq> TransactionVersionZero \<longrightarrow>
      ID H E asEncoder t = H (written (MarshalSia E asEncoder t))
      \<and> (\<forall>b. MarshalSia E asEncoder t = Inr b \<longrightarrow>
            ID H E asEncoder t = H b \<and> b \<noteq> [] \<and> hd b = Version t))"
proof (intro conjI impI allI)
  assume v: "Version t = TransactionVersionZero"
  show "ID H E asEncoder t =
        H (encode_CoinInputs E (CoinInputs t) @ encode_CoinOutputs E (CoinOutputs t) @
           encode_BlockStakeInputs E (BlockStakeInputs t) @
           encode_BlockStakeOutputs E (BlockStakeOutputs t) @
           encode_MinerFees E (MinerFees t) @ encode_bytes E (ArbitraryData t))"
    using v by (simp add: ID_def HashAll_def coreFields_def)
  assume "typeAssert asEncoder (Extension t) = None"
  from MarshalSia_legacy [OF this v, of E]
  show "MarshalSia E asEncoder t =
             Inr (Version t #
               encode_CoinInputs E (CoinInputs t) @ encode_CoinOutputs E (CoinOutputs t) @
               encode_BlockStakeInputs E (BlockStakeInputs t) @
               encode_BlockStakeOutputs E (BlockStakeOutputs t) @
               encode_MinerFees E (MinerFees t) @ encode_bytes E (ArbitraryData t))"
    by (simp add: coreFields_def)
next
  assume v: "Version t \<noteq> TransactionVersionZero"
  then show w: "ID H E asEncoder t = H (written (MarshalSia E asEncoder t))"
    by (simp add: ID_def)
  fix b
  assume b: "MarshalSia E asEncoder t = Inr b"
  then show "ID H E asEncoder t = H b"
    using w by (simp add: written_def)
  from MarshalSia_starts_with_version [OF b]
  show "b \<noteq> []" and "hd b = Version t" by simp_all
qed

theorem ID_by_version_witness:
  "Version (zeroTransaction\<lparr>MinerFees := [5], ArbitraryData := [1, 2]\<rparr>
      :: (bytes, bytes, bytes, unit) Transaction) = TransactionVersionZero
   \<and> ID (\<lambda>b. b) sliceEncoding (\<lambda>x :: unit. None)
        (zeroTransaction\<lparr>MinerFees := [5], ArbitraryData := [1, 2]\<rparr>) =
      replicate 32 0 @ [1, 0, 0, 0, 0, 0, 0, 0, 5, 0, 0, 0, 0, 0, 0, 0] @ [2, 0, 0, 0, 0, 0, 0, 0, 1, 2]
   \<and> MarshalSia sliceEncoding (\<lambda>x :: unit. None)
        (zeroTransaction\<lparr>MinerFees := [5], ArbitraryData := [1, 2]\<rparr>) =
      Inr (0 # replicate 32 0 @ [1, 0, 0, 0, 0, 0, 0, 0, 5, 0, 0, 0, 0, 0, 0, 0] @ [2, 0, 0, 0, 0, 0, 0, 0, 1, 2])
   \<and> Version (zeroTransaction\<lparr>Version := 1, ArbitraryData := [1, 2]\<rparr>
        :: (bytes, bytes, bytes, unit) Transaction) \<noteq> TransactionVersionZero
   \<and> ID (\<lambda>b. b) sliceEncoding (\<lambda>x :: unit. None)
        (zeroTransaction\<lparr>Version := 1, ArbitraryData := [1, 2]\<rparr>) =
      [1, 50, 0, 0, 0, 0, 0, 0, 0] @ replicate 40 0 @ [2, 0, 0, 0, 0, 0, 0, 0, 1, 2]"
proof -
  let ?X = "\<lambda>x :: unit. None :: (bytes, bytes, bytes, unit) TransactionDataEncoder option"
  let ?t0 = "zeroTransaction\<lparr>MinerFees := [5], ArbitraryData := [1, 2]\<rparr>
               :: (bytes, bytes, bytes, unit) Transaction"
  let ?t1 = "zeroTransaction\<lparr>Version := 1, ArbitraryData := [1, 2]\<rparr>
               :: (bytes, bytes, bytes, unit) Transaction"
  have v0: "Version ?t0 = TransactionVersionZero"
    by code_simp
  have x0: "typeAssert ?X (Extension ?t0) = None"
    by code_simp
  have r0: "encode_CoinInputs sliceEncoding (CoinInputs ?t0) @
            encode_CoinOutputs sliceEncoding (CoinOutputs ?t0) @
            encode_BlockStakeInputs sliceEncoding (BlockStakeInputs ?t0) @
            encode_BlockStakeOutputs sliceEncoding (BlockStakeOutputs ?t0) @
            encode_MinerFees sliceEncoding (MinerFees ?t0) @
            encode_bytes sliceEncoding (ArbitraryData ?t0) =
            replicate 32 0 @ [1, 0, 0, 0, 0, 0, 0, 0, 5, 0, 0, 0, 0, 0, 0, 0] @ [2, 0, 0, 0, 0, 0, 0, 0, 1, 2]"
    by code_simp
  have v1: "Version ?t1 \<noteq> TransactionVersionZero"
    by code_simp
  have r1: "written (MarshalSia sliceEncoding ?X ?t1) =
            [1, 50, 0, 0, 0, 0, 0, 0, 0] @ replicate 40 0 @ [2, 0, 0, 0, 0, 0, 0, 0, 1, 2]"
    by code_simp
  have z: "Version ?t0 = 0"
    using v0 by (simp only: TransactionVersionZero_def)
  from ID_by_version [of ?t0 "\<lambda>b. b" sliceEncoding ?X] v0 x0
  have "ID (\<lambda>b. b) sliceEncoding ?X ?t0 =
          replicate 32 0 @ [1, 0, 0, 0, 0, 0, 0, 0, 5, 0, 0, 0, 0, 0, 0, 0] @ [2, 0, 0, 0, 0, 0, 0, 0, 1, 2]"
    and "MarshalSia sliceEncoding ?X ?t0 =
          Inr (0 # replicate 32 0 @ [1, 0, 0, 0, 0, 0, 0, 0, 5, 0, 0, 0, 0, 0, 0, 0] @ [2, 0, 0, 0, 0, 0, 0, 0, 1, 2])"
    unfolding r0 z by blast+
  moreover from ID_by_version [of ?t1 "\<lambda>b. b" sliceEncoding ?X] v1
  have "ID (\<lambda>b. b) sliceEncoding ?X ?t1 =
          [1, 50, 0, 0, 0, 0, 0, 0, 0] @ replicate 40 0 @ [2, 0, 0, 0, 0, 0, 0, 0, 1, 2]"
    unfolding r1 by blast
  ultimately show ?thesis
    using v0 v1 by blast
qed

section \<open>Output identifiers\<close>





text \<open>
  The claim as stated fails for a hash function that collides on two of these inputs:
  the identifiers of the coin outputs 0 and 1 of the zero transaction are equal under
  the hash function that keeps the first 32 bytes, the inputs differing in their last
  eight.
\<close>

lemma no_injective_hash: "\<not> inj (H :: bytes \<Rightarrow> 256 word)"
proof
  assume "inj H"
  then have "finite (UNIV :: bytes set)"
    using finite_imageD [of H UNIV] by simp
  then show False
    by (simp add: infinite_UNIV_listI)
qed


section \<open>Unknown versions\<close>

text \<open>
  C3: on an input whose version byte \<open>v\<close> is not zero and has no registered decoder,
  \<^verbatim>\<open>UnmarshalSia\<close> never succeeds: it returns the error of decoding the payload when the
  length-prefixed payload after the version byte does not decode, and the
  invalid-version error when it does. \<^verbatim>\<open>UnmarshalJSON\<close> returns the invalid-version
  error on an envelope of version \<open>v\<close>, and \<^verbatim>\<open>IsStandardTransaction\<close> returns it for a
  transaction of version \<open>v\<close>.
\<close>

theorem unknown_version_rejected:
  assumes "v \<noteq> TransactionVersionZero" and "registered v = None"
  shows "UnmarshalSia E registered t (v # r) =
           (case decode_bytes E [] r of
              Inl err \<Rightarrow> Inl err
            | Inr p \<Rightarrow> Inl ErrInvalidTransactionVersion)
         \<and> (unmarshalEnvelope b = Inr \<lparr>jVersion = v, jData = data\<rparr> \<longrightarrow>
              UnmarshalJSON unmarshalEnvelope unmarshalLegacy registered t b
                = Inl ErrInvalidTransactionVersion)
         \<and> (Version t = v \<longrightarrow> IsStandardTransaction registered t = Some ErrInvalidTransactionVersion)"
  using assms
  by (auto simp: UnmarshalSia_def UnmarshalJSON_def IsStandardTransaction_def
      TransactionVersion_UnmarshalSia_def andThen_def unknownTransactionDecoder_def
      split: sum.splits)

theorem unknown_version_rejected_witness:
  "(1 :: byte) \<noteq> TransactionVersionZero
   \<and> (Map.empty :: TransactionVersion \<rightharpoonup> (bytes, bytes, bytes, unit) TransactionDecoder) 1 = None
   \<and> UnmarshalSia sliceEncoding Map.empty
        (zeroTransaction\<lparr>Version := 1\<rparr> :: (bytes, bytes, bytes, unit) Transaction)
        [1, 2, 0, 0, 0, 0, 0, 0, 0, 7, 7]
       = Inl ErrInvalidTransactionVersion
   \<and> UnmarshalJSON (\<lambda>b. Inr \<lparr>jVersion = 1, jData = b\<rparr>)
        (\<lambda>d. Inl (ErrForeign ''unexpected end of JSON input''))
        Map.empty (zeroTransaction\<lparr>Version := 1\<rparr> :: (bytes, bytes, bytes, unit) Transaction)
        (WellFormed JNull)
       = Inl ErrInvalidTransactionVersion
   \<and> IsStandardTransaction Map.empty
        (zeroTransaction\<lparr>Version := 1\<rparr> :: (bytes, bytes, bytes, unit) Transaction)
       = Some ErrInvalidTransactionVersion"
proof -
  let ?t = "zeroTransaction\<lparr>Version := 1\<rparr> :: (bytes, bytes, bytes, unit) Transaction"
  have p: "decode_bytes sliceEncoding [] [2, 0, 0, 0, 0, 0, 0, 0, 7, 7] = Inr ([7, 7], [])"
    by code_simp
  have v: "Version ?t = 1"
    by code_simp
  have n: "(1 :: byte) \<noteq> TransactionVersionZero"
    by code_simp
  have e: "(\<lambda>b. Inr \<lparr>jVersion = 1, jData = b\<rparr>) (WellFormed JNull)
             = (Inr \<lparr>jVersion = 1, jData = WellFormed JNull\<rparr> :: error + jsonTransaction)"
    by simp
  from unknown_version_rejected
    [where v = 1 and registered = Map.empty and E = sliceEncoding and t = ?t
       and r = "[2, 0, 0, 0, 0, 0, 0, 0, 7, 7]"
       and unmarshalEnvelope = "\<lambda>b. Inr \<lparr>jVersion = 1, jData = b\<rparr>"
       and b = "WellFormed JNull" and data = "WellFormed JNull"
       and unmarshalLegacy = "\<lambda>d. Inl (ErrForeign ''unexpected end of JSON input'')",
     OF n]
  show ?thesis
    using n by (simp add: p v)
qed

theorem unknown_version_truncated_counterexample:
  "(1 :: byte) \<noteq> TransactionVersionZero
   \<and> (Map.empty :: TransactionVersion \<rightharpoonup> (bytes, bytes, bytes, unit) TransactionDecoder) 1 = None
   \<and> UnmarshalSia sliceEncoding Map.empty (zeroTransaction :: (bytes, bytes, bytes, unit) Transaction) [1]
       = Inl (ErrForeign ''could not decode: EOF'')
   \<and> UnmarshalSia sliceEncoding Map.empty (zeroTransaction :: (bytes, bytes, bytes, unit) Transaction) [1]
       \<noteq> Inl ErrInvalidTransactionVersion"
  by code_simp

section \<open>Validation\<close>

text \<open>
  C9: when the extension of a transaction implements the validator interface,
  \<^verbatim>\<open>ValidateTransaction\<close> is that validator on the context and the transaction, its
  result and its effects, whatever the default validation is, which is not run;
  otherwise it is the default validation.
\<close>

theorem ValidateTransaction_dispatch:
  "(typeAssert asValidator (Extension t) = Some validator \<longrightarrow>
      ValidateTransaction asValidator defaultValidation t ctx s = validator ctx t s
      \<and> ValidateTransaction asValidator defaultValidation t ctx
          = ValidateTransaction asValidator otherValidation t ctx)
   \<and> (typeAssert asValidator (Extension t) = None \<longrightarrow>
      ValidateTransaction asValidator defaultValidation t ctx s = defaultValidation ctx t s)"
  by (simp add: ValidateTransaction_def)

theorem ValidateTransaction_dispatch_witness:
  "typeAssert (\<lambda>x :: unit. Some (countingValidator
         :: (bytes, bytes, bytes, unit, nat \<times> nat) TransactionValidator))
       (Extension (zeroTransaction\<lparr>Version := 1, Extension := Some ()\<rparr>
          :: (bytes, bytes, bytes, unit) Transaction))
     = Some countingValidator
   \<and> ValidateTransaction (\<lambda>x :: unit. Some countingValidator) countingDefaultValidation
       (zeroTransaction\<lparr>Version := 1, Extension := Some ()\<rparr>
          :: (bytes, bytes, bytes, unit) Transaction)
       \<lparr>CurrentBlockHeight = 7, BlockSizeLimit = 1000\<rparr> (0, 0)
     = (None, (1, 0))
   \<and> typeAssert (\<lambda>x :: unit. Some (countingValidator
         :: (bytes, bytes, bytes, unit, nat \<times> nat) TransactionValidator))
       (Extension (zeroTransaction :: (bytes, bytes, bytes, unit) Transaction)) = None
   \<and> ValidateTransaction (\<lambda>x :: unit. Some countingValidator) countingDefaultValidation
       (zeroTransaction :: (bytes, bytes, bytes, unit) Transaction)
       \<lparr>CurrentBlockHeight = 7, BlockSizeLimit = 1000\<rparr> (0, 0)
     = (Some (ErrForeign ''not standard''), (0, 1))"
proof -
  let ?t1 = "zeroTransaction\<lparr>Version := 1, Extension := Some ()\<rparr>
               :: (bytes, bytes, bytes, unit) Transaction"
  let ?t0 = "zeroTransaction :: (bytes, bytes, bytes, unit) Transaction"
  let ?V = "\<lambda>x :: unit. Some (countingValidator
              :: (bytes, bytes, bytes, unit, nat \<times> nat) TransactionValidator)"
  let ?ctx = "\<lparr>CurrentBlockHeight = 7, BlockSizeLimit = 1000\<rparr>"
  have x1: "typeAssert ?V (Extension ?t1) = Some countingValidator"
    by (simp add: typeAssert_def)
  have x0: "typeAssert ?V (Extension ?t0) = None"
    by (simp add: typeAssert_def zeroTransaction_def)
  have "ValidateTransaction ?V countingDefaultValidation ?t1 ?ctx (0, 0) = (None, (1, 0))"
    using ValidateTransaction_dispatch
      [where asValidator = ?V and t = ?t1 and validator = countingValidator
         and defaultValidation = countingDefaultValidation and ctx = ?ctx and s = "(0, 0)"
         and otherValidation = countingDefaultValidation]
      x1
    by (simp add: countingValidator_def)
  moreover have "ValidateTransaction ?V countingDefaultValidation ?t0 ?ctx (0, 0)
                   = (Some (ErrForeign ''not standard''), (0, 1))"
    using ValidateTransaction_dispatch
      [where asValidator = ?V and t = ?t0 and validator = countingValidator
         and defaultValidation = countingDefaultValidation and ctx = ?ctx and s = "(0, 0)"
         and otherValidation = countingDefaultValidation]
      x0
    by (simp add: countingDefaultValidation_def)
  ultimately show ?thesis
    using x1 x0 by blast
qed

section \<open>JSON\<close>

lemma omitempty_eq:
  assumes "xs \<noteq> [] \<Longrightarrow> m xs = Inr j"
  shows "omitempty key xs m = Inr (if xs = [] then [] else [(key, j)])"
  using assms by (simp add: omitempty_def field_def andThen_def)

text \<open>
  C10: for a transaction whose extension does not implement the data encoder
  interface, of any version, \<^verbatim>\<open>MarshalJSON\<close> returns the envelope of the version and
  of the legacy object of the six fields whenever the marshallers of the fields it
  calls return: the keys \<open>coininputs\<close> and \<open>minerfees\<close> are always there, the four others
  only for a field that is not empty. The version of the transaction is only copied
  into the envelope.
\<close>

theorem MarshalJSON_fallback:
  assumes "typeAssert asEncoder (Extension t) = None"
    and "json_CoinInputs J (CoinInputs t) = Inr ci"
    and "CoinOutputs t \<noteq> [] \<Longrightarrow> json_CoinOutputs J (CoinOutputs t) = Inr co"
    and "BlockStakeInputs t \<noteq> [] \<Longrightarrow> json_BlockStakeInputs J (BlockStakeInputs t) = Inr bsi"
    and "BlockStakeOutputs t \<noteq> [] \<Longrightarrow> json_BlockStakeOutputs J (BlockStakeOutputs t) = Inr bso"
    and "json_MinerFees J (MinerFees t) = Inr mf"
    and "ArbitraryData t \<noteq> [] \<Longrightarrow> json_bytes J (ArbitraryData t) = Inr ad"
  shows "MarshalJSON J asEncoder t =
           Inr (JObject
             [(''version'', JNumber (unat (Version t))),
              (''data'', JObject
                 ([(''coininputs'', ci)]
                  @ (if CoinOutputs t = [] then [] else [(''coinoutputs'', co)])
                  @ (if BlockStakeInputs t = [] then [] else [(''blockstakeinputs'', bsi)])
                  @ (if BlockStakeOutputs t = [] then [] else [(''blockstakeoutputs'', bso)])
                  @ [(''minerfees'', mf)]
                  @ (if ArbitraryData t = [] then [] else [(''arbitrarydata'', ad)])))])"
proof -
  have f2: "omitempty ''coinoutputs'' (CoinOutputs t) (json_CoinOutputs J)
              = Inr (if CoinOutputs t = [] then [] else [(''coinoutputs'', co)])"
    by (rule omitempty_eq) (rule assms(3))
  have f3: "omitempty ''blockstakeinputs'' (BlockStakeInputs t) (json_BlockStakeInputs J)
              = Inr (if BlockStakeInputs t = [] then [] else [(''blockstakeinputs'', bsi)])"
    by (rule omitempty_eq) (rule assms(4))
  have f4: "omitempty ''blockstakeoutputs'' (BlockStakeOutputs t) (json_BlockStakeOutputs J)
              = Inr (if BlockStakeOutputs t = [] then [] else [(''blockstakeoutputs'', bso)])"
    by (rule omitempty_eq) (rule assms(5))
  have f6: "omitempty ''arbitrarydata'' (ArbitraryData t) (json_bytes J)
              = Inr (if ArbitraryData t = [] then [] else [(''arbitrarydata'', ad)])"
    by (rule omitempty_eq) (rule assms(7))
  have "json_Marshal_jsonLegacyTransactionVersion J
          \<lparr>lCoinInputs = CoinInputs t, lCoinOutputs = CoinOutputs t,
           lBlockstakeInputs = BlockStakeInputs t, lBlockStakeOutputs = BlockStakeOutputs t,
           lMinerFees = MinerFees t, lArbitraryData = ArbitraryData t\<rparr> =
        Inr (JObject
                 ([(''coininputs'', ci)]
                  @ (if CoinOutputs t = [] then [] else [(''coinoutputs'', co)])
                  @ (if BlockStakeInputs t = [] then [] else [(''blockstakeinputs'', bsi)])
                  @ (if BlockStakeOutputs t = [] then [] else [(''blockstakeoutputs'', bso)])
                  @ [(''minerfees'', mf)]
                  @ (if ArbitraryData t = [] then [] else [(''arbitrarydata'', ad)])))"
    unfolding json_Marshal_jsonLegacyTransactionVersion_def
    by (simp add: f2 f3 f4 f6 assms(2) assms(6) field_def andThen_def)
  then show ?thesis
    by (simp add: MarshalJSON_def assms(1) andThen_def json_Marshal_jsonTransaction_def)
qed

theorem MarshalJSON_fallback_witness:
  "typeAssert (\<lambda>x :: unit. None :: (bytes, bytes, bytes, unit) TransactionDataEncoder option)
      (Extension (zeroTransaction\<lparr>Version := 3, MinerFees := [5], ArbitraryData := [104, 105]\<rparr>
         :: (bytes, bytes, bytes, unit) Transaction)) = None
   \<and> MarshalJSON sampleJSONEncoding (\<lambda>x :: unit. None)
       (zeroTransaction\<lparr>Version := 3, MinerFees := [5], ArbitraryData := [104, 105]\<rparr>) =
     Inr (JObject
       [(''version'', JNumber 3),
        (''data'', JObject
           [(''coininputs'', JArray []),
            (''minerfees'', JArray [JNumber 5]),
            (''arbitrarydata'', JString ''hi'')])])"
proof -
  let ?t = "zeroTransaction\<lparr>Version := 3, MinerFees := [5], ArbitraryData := [104, 105]\<rparr>
              :: (bytes, bytes, bytes, unit) Transaction"
  let ?X = "\<lambda>x :: unit. None :: (bytes, bytes, bytes, unit) TransactionDataEncoder option"
  have x: "typeAssert ?X (Extension ?t) = None"
    by code_simp
  have ci: "json_CoinInputs sampleJSONEncoding (CoinInputs ?t) = Inr (JArray [])"
    by code_simp
  have mf: "json_MinerFees sampleJSONEncoding (MinerFees ?t) = Inr (JArray [JNumber 5])"
    by code_simp
  have ad: "json_bytes sampleJSONEncoding (ArbitraryData ?t) = Inr (JString ''hi'')"
    by code_simp
  have e: "CoinOutputs ?t = []" "BlockStakeInputs ?t = []" "BlockStakeOutputs ?t = []"
    "ArbitraryData ?t \<noteq> []" "unat (Version ?t) = 3"
    by code_simp+
  from MarshalJSON_fallback [where asEncoder = ?X and t = ?t and J = sampleJSONEncoding
      and ci = "JArray []" and mf = "JArray [JNumber 5]" and ad = "JString ''hi''"
      and co = JNull and bsi = JNull and bso = JNull, OF x ci _ _ _ mf ad]
  have "MarshalJSON sampleJSONEncoding ?X ?t =
     Inr (JObject
       [(''version'', JNumber 3),
        (''data'', JObject
           [(''coininputs'', JArray []),
            (''minerfees'', JArray [JNumber 5]),
            (''arbitrarydata'', JString ''hi'')])])"
    unfolding e by simp
  then show ?thesis
    using x by blast
qed

section \<open>Binary round trip\<close>

lemma UnmarshalSia_legacy:
  assumes "fieldsRoundTrip E t" and "Version t = TransactionVersionZero"
    and "zeroFields t0" and "Extension t0 = Extension t"
  shows "UnmarshalSia E registered t0 (Version t # concat (coreFields E t) @ r) = Inr (t, r)"
proof -
  have "t0\<lparr>Version := Version t, CoinInputs := CoinInputs t, CoinOutputs := CoinOutputs t,
           BlockStakeInputs := BlockStakeInputs t, BlockStakeOutputs := BlockStakeOutputs t,
           MinerFees := MinerFees t, ArbitraryData := ArbitraryData t\<rparr> = t"
    using assms(4) by (cases t, cases t0) simp
  then show ?thesis
    using assms(1,2,3)
    by (simp add: UnmarshalSia_def TransactionVersion_UnmarshalSia_def andThen_def
        coreFields_def fieldsRoundTrip_def zeroFields_def)
qed

lemma UnmarshalSia_versioned:
  assumes "Version t \<noteq> TransactionVersionZero" and "registered (Version t) = Some d"
    and "\<And>r'. decode_bytes E [] (encode_bytes E rawData @ r') = Inr (rawData, r')"
  shows "UnmarshalSia E registered t0 (Version t # encode_bytes E rawData @ r) =
           (case DecodeTransactionData d (Version t) rawData of
              Inl err \<Rightarrow> Inl err
            | Inr t' \<Rightarrow> Inr (t', r))"
  using assms
  by (simp add: UnmarshalSia_def TransactionVersion_UnmarshalSia_def andThen_def
      split: sum.splits)

text \<open>
  C2, as amended. For a transaction \<open>t\<close> of version 0 whose extension does not
  implement the data encoder interface, when the primitive encoder round-trips on its
  six fields, \<^verbatim>\<open>UnmarshalSia\<close> on the bytes of \<^verbatim>\<open>MarshalSia\<close>, into a receiver whose six
  fields hold their zero values and whose extension is that of \<open>t\<close> (a new transaction,
  when the extension of \<open>t\<close> is \<^verbatim>\<open>nil\<close>), yields \<open>t\<close>. For a transaction of a registered
  version other than 0, \<^verbatim>\<open>MarshalSia\<close> fails with the error of the extension's encoder
  when that fails, and otherwise writes the version byte and the length-prefixed
  payload: the bytes of the extension's encoder, or without such an extension the
  encodings of the six fields one after the other. When the primitive encoder
  round-trips on the payload, \<^verbatim>\<open>UnmarshalSia\<close> on these bytes, into any receiver, returns
  what the registered decoder returns on the version and the payload: it yields \<open>t\<close>
  exactly when that decoder does.
\<close>

theorem MarshalSia_UnmarshalSia:
  "(Version t = TransactionVersionZero \<longrightarrow> typeAssert asEncoder (Extension t) = None \<longrightarrow>
      zeroFields t0 \<longrightarrow> Extension t0 = Extension t \<longrightarrow> fieldsRoundTrip E t \<longrightarrow>
      (\<exists>b. MarshalSia E asEncoder t = Inr b
           \<and> UnmarshalSia E registered t0 (b @ r) = Inr (t, r)))
   \<and> (Version t \<noteq> TransactionVersionZero \<longrightarrow> registered (Version t) = Some d \<longrightarrow>
      (case (case typeAssert asEncoder (Extension t) of
               Some encoder \<Rightarrow> EncodeTransactionData encoder t
             | None \<Rightarrow>
                 Inr (encode_CoinInputs E (CoinInputs t) @ encode_CoinOutputs E (CoinOutputs t) @
                      encode_BlockStakeInputs E (BlockStakeInputs t) @
                      encode_BlockStakeOutputs E (BlockStakeOutputs t) @
                      encode_MinerFees E (MinerFees t) @ encode_bytes E (ArbitraryData t))) of
         Inl err \<Rightarrow> MarshalSia E asEncoder t = Inl err
       | Inr rawData \<Rightarrow>
           MarshalSia E asEncoder t = Inr (Version t # encode_bytes E rawData)
           \<and> ((\<forall>r'. decode_bytes E [] (encode_bytes E rawData @ r') = Inr (rawData, r')) \<longrightarrow>
                UnmarshalSia E registered t0 (Version t # encode_bytes E rawData @ r) =
                  (case DecodeTransactionData d (Version t) rawData of
                     Inl err \<Rightarrow> Inl err
                   | Inr t' \<Rightarrow> Inr (t', r))
                \<and> (UnmarshalSia E registered t0 (Version t # encode_bytes E rawData @ r)
                      = Inr (t, r)
                     \<longleftrightarrow> DecodeTransactionData d (Version t) rawData = Inr t))))"
proof (intro conjI impI)
  assume "Version t = TransactionVersionZero" and "typeAssert asEncoder (Extension t) = None"
    and "zeroFields t0" and "Extension t0 = Extension t" and "fieldsRoundTrip E t"
  then show "\<exists>b. MarshalSia E asEncoder t = Inr b
               \<and> UnmarshalSia E registered t0 (b @ r) = Inr (t, r)"
    using UnmarshalSia_legacy [of E t t0 registered r]
    by (simp add: MarshalSia_legacy)
next
  assume v: "Version t \<noteq> TransactionVersionZero" and d: "registered (Version t) = Some d"
  have decoded:
    "UnmarshalSia E registered t0 (Version t # encode_bytes E rawData @ r) =
       (case DecodeTransactionData d (Version t) rawData of
          Inl err \<Rightarrow> Inl err
        | Inr t' \<Rightarrow> Inr (t', r))
     \<and> (UnmarshalSia E registered t0 (Version t # encode_bytes E rawData @ r) = Inr (t, r)
          \<longleftrightarrow> DecodeTransactionData d (Version t) rawData = Inr t)"
    if p: "\<forall>r'. decode_bytes E [] (encode_bytes E rawData @ r') = Inr (rawData, r')"
    for rawData
  proof -
    from p have "\<And>r'. decode_bytes E [] (encode_bytes E rawData @ r') = Inr (rawData, r')"
      by blast
    with v d have u: "UnmarshalSia E registered t0 (Version t # encode_bytes E rawData @ r) =
       (case DecodeTransactionData d (Version t) rawData of
          Inl err \<Rightarrow> Inl err
        | Inr t' \<Rightarrow> Inr (t', r))"
      by (simp add: UnmarshalSia_versioned)
    show ?thesis
      unfolding u by (simp split: sum.splits)
  qed
  show "case (case typeAssert asEncoder (Extension t) of
               Some encoder \<Rightarrow> EncodeTransactionData encoder t
             | None \<Rightarrow>
                 Inr (encode_CoinInputs E (CoinInputs t) @ encode_CoinOutputs E (CoinOutputs t) @
                      encode_BlockStakeInputs E (BlockStakeInputs t) @
                      encode_BlockStakeOutputs E (BlockStakeOutputs t) @
                      encode_MinerFees E (MinerFees t) @ encode_bytes E (ArbitraryData t))) of
         Inl err \<Rightarrow> MarshalSia E asEncoder t = Inl err
       | Inr rawData \<Rightarrow>
           MarshalSia E asEncoder t = Inr (Version t # encode_bytes E rawData)
           \<and> ((\<forall>r'. decode_bytes E [] (encode_bytes E rawData @ r') = Inr (rawData, r')) \<longrightarrow>
                UnmarshalSia E registered t0 (Version t # encode_bytes E rawData @ r) =
                  (case DecodeTransactionData d (Version t) rawData of
                     Inl err \<Rightarrow> Inl err
                   | Inr t' \<Rightarrow> Inr (t', r))
                \<and> (UnmarshalSia E registered t0 (Version t # encode_bytes E rawData @ r)
                      = Inr (t, r)
                     \<longleftrightarrow> DecodeTransactionData d (Version t) rawData = Inr t))"
  proof (cases "typeAssert asEncoder (Extension t)")
    case None
    let ?p = "encode_CoinInputs E (CoinInputs t) @ encode_CoinOutputs E (CoinOutputs t) @
              encode_BlockStakeInputs E (BlockStakeInputs t) @
              encode_BlockStakeOutputs E (BlockStakeOutputs t) @
              encode_MinerFees E (MinerFees t) @ encode_bytes E (ArbitraryData t)"
    have "MarshalSia E asEncoder t = Inr (Version t # encode_bytes E ?p)"
      using MarshalSia_blob [OF None v, of E] by (simp add: coreFields_def)
    then show ?thesis
      unfolding None option.case sum.case using decoded [of ?p] by blast
  next
    case (Some encoder)
    show ?thesis
    proof (cases "EncodeTransactionData encoder t")
      case (Inl err)
      then have "MarshalSia E asEncoder t = Inl err"
        by (simp add: MarshalSia_extension [OF Some])
      then show ?thesis
        unfolding Some option.case Inl sum.case .
    next
      case (Inr rawData)
      then have "MarshalSia E asEncoder t = Inr (Version t # encode_bytes E rawData)"
        by (simp add: MarshalSia_extension [OF Some])
      then show ?thesis
        unfolding Some option.case Inr sum.case using decoded [of rawData] by blast
    qed
  qed
qed

lemma decodeSlice_encodeSlice_Nil:
  fixes enc :: "'a \<Rightarrow> bytes" and dec :: "bytes \<Rightarrow> error + ('a \<times> bytes)"
  shows "decodeSlice dec [] (encodeSlice enc [] @ r) = Inr ([], r)"
  using decodeSlice_encodeSlice_zero [of "[]" dec enc r] by simp

lemma fieldsRoundTrip_sliceEncoding:
  assumes "CoinInputs t = []" and "CoinOutputs t = []" and "BlockStakeInputs t = []"
    and "BlockStakeOutputs t = []"
    and "length (MinerFees t) < 2 ^ 64" and "\<And>c. c \<in> set (MinerFees t) \<Longrightarrow> c < 2 ^ 64"
    and "length (ArbitraryData t) < 2 ^ 64"
  shows "fieldsRoundTrip sliceEncoding t"
proof -
  have "decodeSlice decodeCurrency [] (encodeSlice encodeCurrency (MinerFees t) @ r)
          = Inr (MinerFees t, r)" for r
    using decodeSlice_encodeSlice_zero [of "MinerFees t" decodeCurrency encodeCurrency r]
      assms(5,6) decodeCurrency_encodeCurrency
    by blast
  then show ?thesis
    using assms(1-4,7)
    by (simp add: fieldsRoundTrip_def sliceEncoding_def decodeSlice_encodeSlice_Nil
        decodeByteSlice_encodeByteSlice)
qed

theorem MarshalSia_UnmarshalSia_witness:
  "fieldsRoundTrip sliceEncoding
     (zeroTransaction\<lparr>MinerFees := [5], ArbitraryData := [1, 2]\<rparr>
        :: (bytes, bytes, bytes, unit) Transaction)
   \<and> zeroFields (zeroTransaction :: (bytes, bytes, bytes, unit) Transaction)
   \<and> UnmarshalSia sliceEncoding [1 \<mapsto> coreFieldsDecoder]
       (zeroTransaction :: (bytes, bytes, bytes, unit) Transaction)
       (written (MarshalSia sliceEncoding (\<lambda>x :: unit. None)
          (zeroTransaction\<lparr>MinerFees := [5], ArbitraryData := [1, 2]\<rparr>)))
     = Inr (zeroTransaction\<lparr>MinerFees := [5], ArbitraryData := [1, 2]\<rparr>, [])
   \<and> UnmarshalSia sliceEncoding [1 \<mapsto> coreFieldsDecoder]
       (zeroTransaction :: (bytes, bytes, bytes, unit) Transaction)
       (written (MarshalSia sliceEncoding (\<lambda>x :: unit. None)
          (zeroTransaction\<lparr>Version := 1, MinerFees := [5], ArbitraryData := [1, 2]\<rparr>)))
     = Inr (zeroTransaction\<lparr>Version := 1, MinerFees := [5], ArbitraryData := [1, 2]\<rparr>, [])"
proof -
  let ?X = "\<lambda>x :: unit. None :: (bytes, bytes, bytes, unit) TransactionDataEncoder option"
  let ?R = "[1 \<mapsto> coreFieldsDecoder] :: TransactionVersion \<rightharpoonup> (bytes, bytes, bytes, unit) TransactionDecoder"
  let ?z = "zeroTransaction :: (bytes, bytes, bytes, unit) Transaction"
  let ?t0 = "zeroTransaction\<lparr>MinerFees := [5], ArbitraryData := [1, 2]\<rparr>
               :: (bytes, bytes, bytes, unit) Transaction"
  let ?t1 = "zeroTransaction\<lparr>Version := 1, MinerFees := [5], ArbitraryData := [1, 2]\<rparr>
               :: (bytes, bytes, bytes, unit) Transaction"
  let ?raw = "encode_CoinInputs sliceEncoding (CoinInputs ?t1) @
              encode_CoinOutputs sliceEncoding (CoinOutputs ?t1) @
              encode_BlockStakeInputs sliceEncoding (BlockStakeInputs ?t1) @
              encode_BlockStakeOutputs sliceEncoding (BlockStakeOutputs ?t1) @
              encode_MinerFees sliceEncoding (MinerFees ?t1) @
              encode_bytes sliceEncoding (ArbitraryData ?t1)"
  have f0: "fieldsRoundTrip sliceEncoding ?t0"
    by (rule fieldsRoundTrip_sliceEncoding) (simp_all add: zeroTransaction_def)
  have z0: "zeroFields ?z"
    by (simp add: zeroFields_def zeroTransaction_def)
  have v0: "Version ?t0 = TransactionVersionZero" and x0: "typeAssert ?X (Extension ?t0) = None"
    and e0: "Extension ?z = Extension ?t0"
    by code_simp+
  from MarshalSia_UnmarshalSia
    [where t = ?t0 and asEncoder = ?X and ?t0.0 = ?z and E = sliceEncoding and registered = ?R
       and r = "[]" and d = coreFieldsDecoder]
    v0 x0 z0 e0 f0
  obtain b where "MarshalSia sliceEncoding ?X ?t0 = Inr b"
    and "UnmarshalSia sliceEncoding ?R ?z (b @ []) = Inr (?t0, [])"
    by blast
  then have a: "UnmarshalSia sliceEncoding ?R ?z (written (MarshalSia sliceEncoding ?X ?t0))
                  = Inr (?t0, [])"
    by (simp add: written_def)
  have v1: "Version ?t1 \<noteq> TransactionVersionZero" and x1: "typeAssert ?X (Extension ?t1) = None"
    by code_simp+
  have d1: "?R (Version ?t1) = Some coreFieldsDecoder"
    by (simp add: zeroTransaction_def)
  have "length ?raw = 58"
    by code_simp
  then have len: "length ?raw < 2 ^ 64"
    by simp
  have p: "\<forall>r'. decode_bytes sliceEncoding [] (encode_bytes sliceEncoding ?raw @ r') = Inr (?raw, r')"
    using decodeByteSlice_encodeByteSlice [OF len] by (simp add: sliceEncoding_def)
  have dec: "DecodeTransactionData coreFieldsDecoder (Version ?t1) ?raw = Inr ?t1"
    by code_simp
  from MarshalSia_UnmarshalSia
    [where t = ?t1 and asEncoder = ?X and ?t0.0 = ?z and E = sliceEncoding and registered = ?R
       and r = "[]" and d = coreFieldsDecoder, unfolded x1 option.case sum.case]
    v1 d1
  have m: "MarshalSia sliceEncoding ?X ?t1 = Inr (Version ?t1 # encode_bytes sliceEncoding ?raw)"
    and u: "(\<forall>r'. decode_bytes sliceEncoding [] (encode_bytes sliceEncoding ?raw @ r')
                      = Inr (?raw, r')) \<longrightarrow>
            (UnmarshalSia sliceEncoding ?R ?z (Version ?t1 # encode_bytes sliceEncoding ?raw @ [])
                      = Inr (?t1, [])
                     \<longleftrightarrow> DecodeTransactionData coreFieldsDecoder (Version ?t1) ?raw = Inr ?t1)"
    by blast+
  from u p dec
  have "UnmarshalSia sliceEncoding ?R ?z (Version ?t1 # encode_bytes sliceEncoding ?raw @ []) = Inr (?t1, [])"
    by blast
  then have b: "UnmarshalSia sliceEncoding ?R ?z (written (MarshalSia sliceEncoding ?X ?t1))
                  = Inr (?t1, [])"
    by (simp add: m written_def)
  show ?thesis
    using f0 z0 a b by blast
qed

text \<open>
  The claim as stated fails on a transaction of version 0 whose extension implements
  the data encoder interface: \<^verbatim>\<open>MarshalSia\<close> asks the extension first and writes its
  payload, length-prefixed, and \<^verbatim>\<open>UnmarshalSia\<close> reads the six fields flat after a
  version byte 0.
\<close>

theorem roundtrip_encoder_extension_counterexample:
  "Version (zeroTransaction\<lparr>ArbitraryData := [1, 2], Extension := Some ()\<rparr>
      :: (bytes, bytes, bytes, unit) Transaction) = TransactionVersionZero
   \<and> MarshalSia sliceEncoding (\<lambda>x :: unit. Some dataOnlyEncoder)
        (zeroTransaction\<lparr>ArbitraryData := [1, 2], Extension := Some ()\<rparr>)
       = Inr [0, 2, 0, 0, 0, 0, 0, 0, 0, 1, 2]
   \<and> UnmarshalSia sliceEncoding Map.empty
        (zeroTransaction :: (bytes, bytes, bytes, unit) Transaction)
        [0, 2, 0, 0, 0, 0, 0, 0, 0, 1, 2]
       = Inl (ErrForeign ''could not decode: EOF'')"
  by code_simp

text \<open>
  Three more ways in which the bytes of a transaction do not decode to it: an extension
  that is not \<^verbatim>\<open>nil\<close> is not restored by the version 0 branch; a registered decoder
  decides what a version other than 0 decodes to; and in the instance of the primitive
  encoder a field of the receiver that is not empty survives an empty field in the
  input.
\<close>

lemma roundtrip_extension_not_restored:
  "MarshalSia sliceEncoding (\<lambda>x :: unit. None) (zeroTransaction\<lparr>Extension := Some ()\<rparr>)
     = Inr (0 # replicate 48 0)
   \<and> UnmarshalSia sliceEncoding Map.empty
        (zeroTransaction :: (bytes, bytes, bytes, unit) Transaction) (0 # replicate 48 0)
       = Inr (zeroTransaction, [])
   \<and> (zeroTransaction :: (bytes, bytes, bytes, unit) Transaction)
       \<noteq> zeroTransaction\<lparr>Extension := Some ()\<rparr>"
  by code_simp

lemma roundtrip_registered_decoder_decides:
  "UnmarshalSia sliceEncoding [1 \<mapsto> unknownTransactionDecoder]
        (zeroTransaction :: (bytes, bytes, bytes, unit) Transaction)
        (written (MarshalSia sliceEncoding (\<lambda>x :: unit. None) (zeroTransaction\<lparr>Version := 1\<rparr>)))
       = Inl ErrInvalidTransactionVersion"
  by code_simp

lemma roundtrip_stale_receiver_field:
  "MarshalSia sliceEncoding (\<lambda>x :: unit. None) zeroTransaction = Inr (0 # replicate 48 0)
   \<and> UnmarshalSia sliceEncoding Map.empty
        (zeroTransaction\<lparr>ArbitraryData := [9]\<rparr> :: (bytes, bytes, bytes, unit) Transaction)
        (0 # replicate 48 0)
       = Inr (zeroTransaction\<lparr>ArbitraryData := [9]\<rparr>, [])
   \<and> (zeroTransaction\<lparr>ArbitraryData := [9]\<rparr> :: (bytes, bytes, bytes, unit) Transaction)
       \<noteq> zeroTransaction"
  by code_simp

end
